theory Spec2Isabelle
  imports Main "HOL-Library.Word"
begin

unbundle bit_operations_syntax

section \<open>Machine integers of the RV32 build\<close>

text \<open>
  The timer driver is modelled for \<open>__RISCV_XLEN == 32\<close>: \<open>unsigned long\<close>, pointers and
  \<open>uint32_t\<close> are 32-bit words, \<open>uint64_t\<close> is a 64-bit word. All arithmetic wraps.
\<close>

type_synonym uint32_t = "32 word"
type_synonym uint64_t = "64 word"

text \<open>\<open>(uint32_t)(value >> 32)\<close>, \<open>(uint32_t)(value)\<close> and \<open>(((uint64_t)high) << 32) | low\<close>.\<close>

definition hi32 :: "uint64_t \<Rightarrow> uint32_t" where
  "hi32 v = ucast (drop_bit 32 v)"

definition lo32 :: "uint64_t \<Rightarrow> uint32_t" where
  "lo32 v = ucast v"

definition join64 :: "uint32_t \<Rightarrow> uint32_t \<Rightarrow> uint64_t" where
  "join64 high low = push_bit 32 (ucast high) OR ucast low"

section \<open>Constants of headers that are not part of the sources\<close>

text \<open>
  \<open>core_feature_base.h\<close> and the SoC headers are not among the source files. The macros
  the driver takes from them are parameters of the model, collected in one record.
\<close>

record soc =
  SysTimer_MTIMECTL_TIMESTOP_Msk :: uint32_t
  SysTimer_MTIMECTL_CMPCLREN_Msk :: uint32_t
  SysTimer_MTIMECTL_CLKSRC_Msk :: uint32_t
  SysTimer_MSIP_MSIP_Msk :: uint32_t
  SysTimer_MSIP_Msk :: uint32_t
  CLINT_MSIP_base :: uint32_t
  CLINT_MSIP_stride :: uint32_t
  CLINT_MTIMECMP_base :: uint32_t
  CLINT_MTIMECMP_stride :: uint32_t
  SysTimer_IRQn :: uint32_t
  ECLIC_NON_VECTOR_INTERRUPT :: uint32_t
  SOC_INT_MAX :: uint32_t

text \<open>
  Modelled from the spec: the macro \<open>SysTimer_MTIMECTL_Msk\<close> is missing from the sources;
  the spec says the mask covers only the defined control bits TIMESTOP, CMPCLREN and CLKSRC.
\<close>

definition SysTimer_MTIMECTL_Msk :: "soc \<Rightarrow> uint32_t" where
  "SysTimer_MTIMECTL_Msk cfg =
     (SysTimer_MTIMECTL_TIMESTOP_Msk cfg OR SysTimer_MTIMECTL_CMPCLREN_Msk cfg
        OR SysTimer_MTIMECTL_CLKSRC_Msk cfg)"

text \<open>
  Modelled from the spec: the per-hart address resolver macros \<open>SysTimer_CLINT_MSIP_BASE\<close>
  and \<open>SysTimer_CLINT_MTIMECMP_BASE\<close> are missing from the sources; the spec gives the
  address of a per-hart register as \<open>base + hartid * stride\<close>.
\<close>

definition SysTimer_CLINT_MSIP_BASE :: "soc \<Rightarrow> uint32_t \<Rightarrow> uint32_t" where
  "SysTimer_CLINT_MSIP_BASE cfg hartid = CLINT_MSIP_base cfg + hartid * CLINT_MSIP_stride cfg"

definition SysTimer_CLINT_MTIMECMP_BASE :: "soc \<Rightarrow> uint32_t \<Rightarrow> uint32_t" where
  "SysTimer_CLINT_MTIMECMP_BASE cfg hartid =
     CLINT_MTIMECMP_base cfg + hartid * CLINT_MTIMECMP_stride cfg"

section \<open>The memory-mapped timer unit\<close>

text \<open>
  A pointer is either into one of the fixed registers of the \<open>SysTimer\<close> structure
  (the register and a byte offset from its start) or an address of the per-hart indexed
  region. The spec keeps hart 0's fixed registers apart from the indexed region, and so does
  the model.
\<close>

datatype reg = MTIMER_reg | MTIMERCMP_reg | MTIMECTL_reg | MSIP_reg

datatype ptr = Field reg nat | Clint uint32_t

fun ptr_add :: "ptr \<Rightarrow> nat \<Rightarrow> ptr" where
  "ptr_add (Field r k) n = Field r (k + n)"
| "ptr_add (Clint a) n = Clint (a + of_nat n)"

text \<open>One access on the bus, with the value transferred.\<close>

datatype access = Load ptr uint32_t | Store ptr uint32_t | Load64 ptr uint64_t

text \<open>Calls into the interrupt controller, which is an external collaborator.\<close>

datatype call =
    ECLIC_SetShvIRQ uint32_t uint32_t
  | ECLIC_SetLevelIRQ uint32_t uint32_t
  | ECLIC_EnableIRQ uint32_t
  | IRQC_SetVector uint32_t uint32_t
  | IRQC_EnableIRQ uint32_t

text \<open>
  The state: the registers, the hart id CSR, the accesses made so far (\<open>bus\<close>), the calls
  made so far (\<open>calls\<close>), and \<open>advance\<close>, the amounts by which the free-running counter
  moves before each of the coming bus accesses (none left: the counter stands still).
\<close>

record machine =
  MTIMER :: uint64_t
  MTIMERCMP :: uint64_t
  MTIMECTL :: uint32_t
  MSIP :: uint32_t
  CLINT :: "uint32_t \<Rightarrow> uint32_t"
  mhartid :: uint32_t
  advance :: "uint64_t list"
  bus :: "access list"
  calls :: "call list"

definition elapse :: "machine \<Rightarrow> machine" where
  "elapse m =
     (case advance m of
        [] \<Rightarrow> m
      | d # ds \<Rightarrow> m\<lparr>MTIMER := MTIMER m + d, advance := ds\<rparr>)"

text \<open>A 32-bit access to a 64-bit register touches its low half at offset 0, its high half at 4.\<close>

definition halfword :: "nat \<Rightarrow> uint64_t \<Rightarrow> uint32_t" where
  "halfword k v = (if k = 0 then lo32 v else if k = 4 then hi32 v else 0)"

definition set_halfword :: "nat \<Rightarrow> uint32_t \<Rightarrow> uint64_t \<Rightarrow> uint64_t" where
  "set_halfword k v old =
     (if k = 0 then join64 (hi32 old) v else if k = 4 then join64 v (lo32 old) else old)"

fun peek :: "ptr \<Rightarrow> machine \<Rightarrow> uint32_t" where
  "peek (Field MTIMER_reg k) m = halfword k (MTIMER m)"
| "peek (Field MTIMERCMP_reg k) m = halfword k (MTIMERCMP m)"
| "peek (Field MTIMECTL_reg k) m = (if k = 0 then MTIMECTL m else 0)"
| "peek (Field MSIP_reg k) m = (if k = 0 then MSIP m else 0)"
| "peek (Clint a) m = CLINT m a"

fun poke :: "ptr \<Rightarrow> uint32_t \<Rightarrow> machine \<Rightarrow> machine" where
  "poke (Field MTIMER_reg k) v m = m\<lparr>MTIMER := set_halfword k v (MTIMER m)\<rparr>"
| "poke (Field MTIMERCMP_reg k) v m = m\<lparr>MTIMERCMP := set_halfword k v (MTIMERCMP m)\<rparr>"
| "poke (Field MTIMECTL_reg k) v m = (if k = 0 then m\<lparr>MTIMECTL := v\<rparr> else m)"
| "poke (Field MSIP_reg k) v m = (if k = 0 then m\<lparr>MSIP := v\<rparr> else m)"
| "poke (Clint a) v m = m\<lparr>CLINT := (CLINT m)(a := v)\<rparr>"

text \<open>What one access does: the counter moves, a store lands, the access is logged.\<close>

fun perform :: "access \<Rightarrow> machine \<Rightarrow> machine" where
  "perform (Load p v) m = (elapse m)\<lparr>bus := bus m @ [Load p v]\<rparr>"
| "perform (Store p v) m = (poke p v (elapse m))\<lparr>bus := bus m @ [Store p v]\<rparr>"
| "perform (Load64 p v) m = (elapse m)\<lparr>bus := bus m @ [Load64 p v]\<rparr>"

text \<open>\<open>__LW\<close> and \<open>__SW\<close>; a read of a 64-bit structure field.\<close>

definition LW :: "ptr \<Rightarrow> machine \<Rightarrow> uint32_t \<times> machine" where
  "LW p m = (let v = peek p (elapse m) in (v, perform (Load p v) m))"

definition SW :: "ptr \<Rightarrow> uint32_t \<Rightarrow> machine \<Rightarrow> machine" where
  "SW p v m = perform (Store p v) m"

definition LD_field :: "ptr \<Rightarrow> machine \<Rightarrow> uint64_t \<times> machine" where
  "LD_field p m =
     (let m1 = elapse m; v = join64 (peek (ptr_add p 4) m1) (peek p m1)
      in (v, perform (Load64 p v) m))"

text \<open>The states after each access of a sequence, in order.\<close>

fun run_states :: "access list \<Rightarrow> machine \<Rightarrow> machine list" where
  "run_states [] m = []"
| "run_states (a # as) m = perform a m # run_states as (perform a m)"

text \<open>The accesses a state transformer added to the log.\<close>

definition issued :: "machine \<Rightarrow> machine \<Rightarrow> access list" where
  "issued m m' = drop (length (bus m)) (bus m')"

text \<open>The value the counter holds at the \<open>k\<close>-th coming bus access.\<close>

definition counter_at :: "nat \<Rightarrow> machine \<Rightarrow> uint64_t" where
  "counter_at k m = MTIMER ((elapse ^^ k) m)"

section \<open>core_feature_timer.h\<close>

definition SysTimer_SetLoadValue :: "uint64_t \<Rightarrow> machine \<Rightarrow> machine" where
  "SysTimer_SetLoadValue val m =
     (let addr = Field MTIMER_reg 0;
          m1 = SW addr 0 m;
          m2 = SW (ptr_add addr 4) (hi32 val) m1
      in SW addr (lo32 val) m2)"

definition SysTimer_GetLoadValue :: "machine \<Rightarrow> uint64_t \<times> machine" where
  "SysTimer_GetLoadValue m =
     (let addr = Field MTIMER_reg 0 in
      case LW (ptr_add addr 4) m of (high0, m1) \<Rightarrow>
      case LW addr m1 of (low, m2) \<Rightarrow>
      case LW (ptr_add addr 4) m2 of (high, m3) \<Rightarrow>
      case (if high0 \<noteq> high then LW addr m3 else (low, m3)) of (low', m4) \<Rightarrow>
        (join64 high low', m4))"

definition SysTimer_GetHartID :: "machine \<Rightarrow> uint32_t" where
  "SysTimer_GetHartID m = mhartid m"

definition SysTimer_SetHartCompareValue :: "soc \<Rightarrow> uint64_t \<Rightarrow> uint32_t \<Rightarrow> machine \<Rightarrow> machine" where
  "SysTimer_SetHartCompareValue cfg val hartid m =
     (if hartid = 0 then
        (let addr = Field MTIMERCMP_reg 0;
             m1 = SW addr (- 1) m;
             m2 = SW (ptr_add addr 4) (hi32 val) m1
         in SW addr (lo32 val) m2)
      else
        (let addr = Clint (SysTimer_CLINT_MTIMECMP_BASE cfg hartid);
             m1 = SW addr (- 1) m;
             m2 = SW (ptr_add addr 4) (hi32 val) m1
         in SW addr (lo32 val) m2))"

definition SysTimer_SetCompareValue :: "soc \<Rightarrow> uint64_t \<Rightarrow> machine \<Rightarrow> machine" where
  "SysTimer_SetCompareValue cfg val m =
     (let hartid = SysTimer_GetHartID m in SysTimer_SetHartCompareValue cfg val hartid m)"

definition SysTimer_GetHartCompareValue :: "soc \<Rightarrow> uint32_t \<Rightarrow> machine \<Rightarrow> uint64_t \<times> machine" where
  "SysTimer_GetHartCompareValue cfg hartid m =
     (if hartid = 0 then LD_field (Field MTIMERCMP_reg 0) m
      else
        (let addr = Clint (SysTimer_CLINT_MTIMECMP_BASE cfg hartid) in
         case LW (ptr_add addr 4) m of (high, m1) \<Rightarrow>
         case LW addr m1 of (low, m2) \<Rightarrow>
           (join64 high low, m2)))"

definition SysTimer_GetCompareValue :: "soc \<Rightarrow> machine \<Rightarrow> uint64_t \<times> machine" where
  "SysTimer_GetCompareValue cfg m =
     (let hartid = SysTimer_GetHartID m in SysTimer_GetHartCompareValue cfg hartid m)"

definition SysTimer_SetControlValue :: "soc \<Rightarrow> uint32_t \<Rightarrow> machine \<Rightarrow> machine" where
  "SysTimer_SetControlValue cfg mctl m =
     SW (Field MTIMECTL_reg 0) (mctl AND SysTimer_MTIMECTL_Msk cfg) m"

definition SysTimer_GetControlValue :: "soc \<Rightarrow> machine \<Rightarrow> uint32_t \<times> machine" where
  "SysTimer_GetControlValue cfg m =
     (case LW (Field MTIMECTL_reg 0) m of (v, m1) \<Rightarrow> (v AND SysTimer_MTIMECTL_Msk cfg, m1))"

definition SysTimer_SetHartSWIRQ :: "soc \<Rightarrow> uint32_t \<Rightarrow> machine \<Rightarrow> machine" where
  "SysTimer_SetHartSWIRQ cfg hartid m =
     (if hartid = 0 then
        (case LW (Field MSIP_reg 0) m of (v, m1) \<Rightarrow>
           SW (Field MSIP_reg 0) (v OR SysTimer_MSIP_MSIP_Msk cfg) m1)
      else
        (let addr = Clint (SysTimer_CLINT_MSIP_BASE cfg hartid)
         in SW addr (SysTimer_MSIP_MSIP_Msk cfg) m))"

definition SysTimer_ClearHartSWIRQ :: "soc \<Rightarrow> uint32_t \<Rightarrow> machine \<Rightarrow> machine" where
  "SysTimer_ClearHartSWIRQ cfg hartid m =
     (if hartid = 0 then
        (case LW (Field MSIP_reg 0) m of (v, m1) \<Rightarrow>
           SW (Field MSIP_reg 0) (v AND NOT (SysTimer_MSIP_MSIP_Msk cfg)) m1)
      else
        (let addr = Clint (SysTimer_CLINT_MSIP_BASE cfg hartid)
         in SW addr 0 m))"

definition SysTimer_GetHartMsipValue :: "soc \<Rightarrow> uint32_t \<Rightarrow> machine \<Rightarrow> uint32_t \<times> machine" where
  "SysTimer_GetHartMsipValue cfg hartid m =
     (if hartid = 0 then
        (case LW (Field MSIP_reg 0) m of (v, m1) \<Rightarrow> (v AND SysTimer_MSIP_Msk cfg, m1))
      else
        (let addr = Clint (SysTimer_CLINT_MSIP_BASE cfg hartid)
         in LW addr m))"

definition SysTimer_SetHartMsipValue :: "soc \<Rightarrow> uint32_t \<Rightarrow> uint32_t \<Rightarrow> machine \<Rightarrow> machine" where
  "SysTimer_SetHartMsipValue cfg msip hartid m =
     (if hartid = 0 then SW (Field MSIP_reg 0) (msip AND SysTimer_MSIP_Msk cfg) m
      else
        (let addr = Clint (SysTimer_CLINT_MSIP_BASE cfg hartid)
         in SW addr msip m))"

definition SysTimer_SendIPI :: "soc \<Rightarrow> uint32_t \<Rightarrow> machine \<Rightarrow> machine" where
  "SysTimer_SendIPI cfg hartid m =
     (let addr = Clint (SysTimer_CLINT_MSIP_BASE cfg hartid) in SW addr 1 m)"

definition SysTimer_ClearIPI :: "soc \<Rightarrow> uint32_t \<Rightarrow> machine \<Rightarrow> machine" where
  "SysTimer_ClearIPI cfg hartid m =
     (let addr = Clint (SysTimer_CLINT_MSIP_BASE cfg hartid) in SW addr 0 m)"

text \<open>The three calls that end \<open>SysTick_Config\<close> and \<open>SysTick_HartConfig\<close>.\<close>

definition eclic_setup :: "soc \<Rightarrow> machine \<Rightarrow> machine" where
  "eclic_setup cfg m =
     m\<lparr>calls := calls m @
         [ECLIC_SetShvIRQ (SysTimer_IRQn cfg) (ECLIC_NON_VECTOR_INTERRUPT cfg),
          ECLIC_SetLevelIRQ (SysTimer_IRQn cfg) 0,
          ECLIC_EnableIRQ (SysTimer_IRQn cfg)]\<rparr>"

definition SysTick_Config :: "soc \<Rightarrow> uint64_t \<Rightarrow> machine \<Rightarrow> uint32_t \<times> machine" where
  "SysTick_Config cfg ticks m =
     (case SysTimer_GetLoadValue m of (loadticks, m1) \<Rightarrow>
        (0, eclic_setup cfg (SysTimer_SetCompareValue cfg (ticks + loadticks) m1)))"

definition SysTick_HartConfig :: "soc \<Rightarrow> uint64_t \<Rightarrow> uint32_t \<Rightarrow> machine \<Rightarrow> uint32_t \<times> machine" where
  "SysTick_HartConfig cfg ticks hartid m =
     (case SysTimer_GetLoadValue m of (loadticks, m1) \<Rightarrow>
        (0, eclic_setup cfg (SysTimer_SetHartCompareValue cfg (ticks + loadticks) hartid m1)))"

definition SysTick_Reload :: "soc \<Rightarrow> uint64_t \<Rightarrow> machine \<Rightarrow> uint32_t \<times> machine" where
  "SysTick_Reload cfg ticks m =
     (case SysTimer_GetLoadValue m of (cur_ticks, m1) \<Rightarrow>
        (let reload_ticks = ticks + cur_ticks in
         if reload_ticks > cur_ticks then (0, SysTimer_SetCompareValue cfg reload_ticks m1)
         else (0, SysTimer_SetCompareValue cfg ticks (SysTimer_SetLoadValue 0 m1))))"

definition SysTick_HartReload :: "soc \<Rightarrow> uint64_t \<Rightarrow> uint32_t \<Rightarrow> machine \<Rightarrow> uint32_t \<times> machine" where
  "SysTick_HartReload cfg ticks hartid m =
     (case SysTimer_GetLoadValue m of (cur_ticks, m1) \<Rightarrow>
        (let reload_ticks = ticks + cur_ticks in
         if reload_ticks > cur_ticks then
           (0, SysTimer_SetHartCompareValue cfg reload_ticks hartid m1)
         else
           (0, SysTimer_SetHartCompareValue cfg ticks hartid (SysTimer_SetLoadValue 0 m1))))"

text \<open>The 64-bit compare register of a hart, as the state holds it.\<close>

definition compare_reg :: "soc \<Rightarrow> uint32_t \<Rightarrow> machine \<Rightarrow> uint64_t" where
  "compare_reg cfg hartid m =
     (if hartid = 0 then MTIMERCMP m
      else join64 (CLINT m (SysTimer_CLINT_MTIMECMP_BASE cfg hartid + 4))
                  (CLINT m (SysTimer_CLINT_MTIMECMP_BASE cfg hartid)))"

section \<open>system_evalsoc.c\<close>

definition MAX_SYSTEM_EXCEPTION_NUM :: uint32_t where
  "MAX_SYSTEM_EXCEPTION_NUM = 12"

text \<open>
  \<open>SystemExceptionHandlers\<close> is an array of \<open>unsigned long\<close>: a list of words. The address of
  \<open>system_default_exception_handler\<close> is fixed at link time: a parameter \<open>dflt\<close>.
\<close>

function Exception_Init_loop :: "uint32_t \<Rightarrow> nat \<Rightarrow> uint32_t list \<Rightarrow> uint32_t list" where
  "Exception_Init_loop dflt i tbl =
     (if i < unat MAX_SYSTEM_EXCEPTION_NUM
      then Exception_Init_loop dflt (i + 1) (tbl[i := dflt])
      else tbl)"
  by pat_completeness auto
termination
  by (relation "measure (\<lambda>(dflt, i, tbl). unat MAX_SYSTEM_EXCEPTION_NUM - i)") auto

declare Exception_Init_loop.simps [simp del]

definition Exception_Init :: "uint32_t \<Rightarrow> uint32_t list \<Rightarrow> uint32_t list" where
  "Exception_Init dflt tbl = Exception_Init_loop dflt 0 tbl"

definition Exception_Register_EXC :: "uint32_t \<Rightarrow> uint32_t \<Rightarrow> uint32_t list \<Rightarrow> uint32_t list" where
  "Exception_Register_EXC EXCn exc_handler tbl =
     (if EXCn < MAX_SYSTEM_EXCEPTION_NUM then tbl[unat EXCn := exc_handler] else tbl)"

text \<open>Control that reaches the end of the function without a \<open>return\<close> is \<open>None\<close>.\<close>

definition Exception_Get_EXC :: "uint32_t \<Rightarrow> uint32_t list \<Rightarrow> uint32_t option" where
  "Exception_Get_EXC EXCn tbl =
     (if EXCn < MAX_SYSTEM_EXCEPTION_NUM then Some (tbl ! unat EXCn) else None)"

text \<open>
  The handler that \<open>core_exception_handler\<close> selects.
\<close>

definition selected_handler :: "uint32_t \<Rightarrow> uint32_t list \<Rightarrow> uint32_t \<Rightarrow> uint32_t" where
  "selected_handler dflt tbl mcause =
     (let EXCn = mcause AND 0xfff in
      if EXCn < MAX_SYSTEM_EXCEPTION_NUM then tbl ! unat EXCn else dflt)"

text \<open>
  \<open>system_default_exception_handler\<close> prints the trap state and then waits for interrupts
  in \<open>while (1)\<close>: it never returns to its caller, which is the result \<open>None\<close>.
\<close>

definition system_default_exception_handler :: "uint32_t \<Rightarrow> uint32_t \<Rightarrow> unit option" where
  "system_default_exception_handler mcause sp = None"

text \<open>
  A call through a handler pointer. The registered handlers are code outside the sources:
  \<open>returns h\<close> says whether the handler at address \<open>h\<close> comes back to its caller.
\<close>

definition invoke ::
  "uint32_t \<Rightarrow> (uint32_t \<Rightarrow> bool) \<Rightarrow> uint32_t \<Rightarrow> uint32_t \<Rightarrow> uint32_t \<Rightarrow> unit option" where
  "invoke dflt returns h mcause sp =
     (if h = dflt then system_default_exception_handler mcause sp
      else if returns h then Some () else None)"

text \<open>
  \<open>core_exception_handler\<close>: the invocations it makes, each a handler with its two
  arguments, and its return value, \<open>None\<close> when control never comes back from the handler.
\<close>

definition core_exception_handler ::
  "uint32_t \<Rightarrow> (uint32_t \<Rightarrow> bool) \<Rightarrow> uint32_t list \<Rightarrow> uint32_t \<Rightarrow> uint32_t \<Rightarrow>
     (uint32_t \<times> uint32_t \<times> uint32_t) list \<times> uint32_t option" where
  "core_exception_handler dflt returns tbl mcause sp =
     (let exc_handler = selected_handler dflt tbl mcause in
      if exc_handler \<noteq> 0 then
        (case invoke dflt returns exc_handler mcause sp of
           None \<Rightarrow> ([(exc_handler, mcause, sp)], None)
         | Some u \<Rightarrow> ([(exc_handler, mcause, sp)], Some 0))
      else ([], Some 0))"

definition IRQC_Register_IRQ :: "soc \<Rightarrow> uint32_t \<Rightarrow> uint32_t \<Rightarrow> machine \<Rightarrow> uint32_t \<times> machine" where
  "IRQC_Register_IRQ cfg IRQn handler m =
     (let m0 = (if word_sle (SOC_INT_MAX cfg) IRQn then m else m);
          m1 = (if handler \<noteq> 0 then m0\<lparr>calls := calls m0 @ [IRQC_SetVector IRQn handler]\<rparr> else m0);
          m2 = m1\<lparr>calls := calls m1 @ [IRQC_EnableIRQ IRQn]\<rparr>
      in (0, m2))"

section \<open>Observations used in the statements\<close>

text \<open>The pointer an access goes through.\<close>

definition target :: "access \<Rightarrow> ptr" where
  "target a = (case a of Load p v \<Rightarrow> p | Store p v \<Rightarrow> p | Load64 p v \<Rightarrow> p)"

text \<open>
  The pointer \<open>SysTimer_SetHartCompareValue\<close> writes through: the fixed register for hart 0,
  the resolved per-hart address otherwise.
\<close>

definition compare_ptr :: "soc \<Rightarrow> uint32_t \<Rightarrow> ptr" where
  "compare_ptr cfg hartid =
     (if hartid = 0 then Field MTIMERCMP_reg 0
      else Clint (SysTimer_CLINT_MTIMECMP_BASE cfg hartid))"

text \<open>The stores of a trace that go to the counter register \<open>MTIMER\<close>.\<close>

fun is_counter_store :: "access \<Rightarrow> bool" where
  "is_counter_store (Store (Field MTIMER_reg k) v) = True"
| "is_counter_store a = False"

definition counter_stores :: "access list \<Rightarrow> access list" where
  "counter_stores as = filter is_counter_store as"

text \<open>
  A sample configuration and a machine with a given counter, hart-0 compare value and
  counter schedule, everything else zero: the inputs of the concrete evaluations below.
\<close>

definition sample_soc :: soc where
  "sample_soc =
     \<lparr>SysTimer_MTIMECTL_TIMESTOP_Msk = 1, SysTimer_MTIMECTL_CMPCLREN_Msk = 2,
      SysTimer_MTIMECTL_CLKSRC_Msk = 4, SysTimer_MSIP_MSIP_Msk = 1, SysTimer_MSIP_Msk = 1,
      CLINT_MSIP_base = 0x18031000, CLINT_MSIP_stride = 4,
      CLINT_MTIMECMP_base = 0x18035000, CLINT_MTIMECMP_stride = 8,
      SysTimer_IRQn = 7, ECLIC_NON_VECTOR_INTERRUPT = 0, SOC_INT_MAX = 32\<rparr>"

definition machine_at :: "uint64_t \<Rightarrow> uint64_t \<Rightarrow> uint64_t list \<Rightarrow> machine" where
  "machine_at counter cmp ds =
     \<lparr>MTIMER = counter, MTIMERCMP = cmp, MTIMECTL = 0, MSIP = 0, CLINT = (\<lambda>a. 0),
      mhartid = 0, advance = ds, bus = [], calls = []\<rparr>"

section \<open>Halves of a 64-bit value\<close>

lemma join64_halves: "join64 (hi32 v) (lo32 v) = v"
  unfolding join64_def hi32_def lo32_def
  by (rule bit_eqI) (auto simp: bit_simps)

lemma hi32_join64: "hi32 (join64 h l) = h"
  unfolding join64_def hi32_def
  by (rule bit_eqI) (auto simp: bit_simps dest: bit_imp_le_length)

lemma lo32_join64: "lo32 (join64 h l) = l"
  unfolding join64_def lo32_def
  by (rule bit_eqI) (auto simp: bit_simps)

lemma unat_hi32: "unat (hi32 v) = unat v div 2 ^ 32"
proof -
  have "unat v < 2 ^ 64" using unsigned_less[of v] by simp
  then have "unat v div 2 ^ 32 < 2 ^ 32" by simp
  moreover have "unat (drop_bit 32 v) = unat v div 2 ^ 32"
    unfolding unat_drop_bit_eq by (simp add: drop_bit_eq_div)
  ultimately show ?thesis
    by (simp add: hi32_def unsigned_ucast_eq take_bit_eq_mod)
qed

lemma unat_lo32: "unat (lo32 v) = unat v mod 2 ^ 32"
  by (simp add: lo32_def unsigned_ucast_eq take_bit_eq_mod)

lemma unat_halves: "unat v = unat (hi32 v) * 2 ^ 32 + unat (lo32 v)"
  by (simp add: unat_hi32 unat_lo32)

lemma unat_join64: "unat (join64 h l) = unat h * 2 ^ 32 + unat l"
  using unat_halves[of "join64 h l"] by (simp add: hi32_join64 lo32_join64)

lemma join64_le_iff:
  "join64 h l \<le> join64 h' l' \<longleftrightarrow> h < h' \<or> (h = h' \<and> l \<le> l')"
proof -
  have a: "unat l < 2 ^ 32" "unat l' < 2 ^ 32"
    using unsigned_less[of l] unsigned_less[of l'] by simp_all
  show ?thesis
  proof (cases "unat h < unat h'")
    case True
    then have "unat h + 1 \<le> unat h'" by simp
    then have "(unat h + 1) * 2 ^ 32 \<le> unat h' * 2 ^ 32" by (rule mult_le_mono1)
    with a True show ?thesis by (simp add: word_le_nat_alt word_less_nat_alt unat_join64)
  next
    case False
    show ?thesis
    proof (cases "unat h = unat h'")
      case True
      then have "h = h'" by (simp add: word_unat_eq_iff)
      then show ?thesis by (simp add: word_le_nat_alt unat_join64)
    next
      case F2: False
      with False have "unat h' + 1 \<le> unat h" by simp
      then have "(unat h' + 1) * 2 ^ 32 \<le> unat h * 2 ^ 32" by (rule mult_le_mono1)
      with a False F2 show ?thesis
        by (auto simp add: word_le_nat_alt word_less_nat_alt unat_join64)
    qed
  qed
qed

lemma hi32_mono: "a \<le> b \<Longrightarrow> hi32 a \<le> hi32 b"
  by (simp add: word_le_nat_alt unat_hi32 div_le_mono)

section \<open>Bus primitives\<close>

lemma elapse_keeps:
  "MTIMERCMP (elapse m) = MTIMERCMP m" "MTIMECTL (elapse m) = MTIMECTL m"
  "MSIP (elapse m) = MSIP m" "CLINT (elapse m) = CLINT m" "mhartid (elapse m) = mhartid m"
  "bus (elapse m) = bus m" "calls (elapse m) = calls m"
  by (simp_all add: elapse_def split: list.splits)

lemma fst_LW: "fst (LW p m) = peek p (elapse m)"
  by (simp add: LW_def Let_def)

lemma snd_LW: "snd (LW p m) = (elapse m)\<lparr>bus := bus m @ [Load p (peek p (elapse m))]\<rparr>"
  by (simp add: LW_def Let_def)

lemma SW_eq: "SW p v m = (poke p v (elapse m))\<lparr>bus := bus m @ [Store p v]\<rparr>"
  by (simp add: SW_def)

section \<open>The exception handler table\<close>

lemma Exception_Init_loop_length:
  "length (Exception_Init_loop dflt i tbl) = length tbl"
  by (induction dflt i tbl rule: Exception_Init_loop.induct)
     (subst Exception_Init_loop.simps, simp)

lemma Exception_Init_loop_nth:
  "j < length tbl \<Longrightarrow>
   Exception_Init_loop dflt i tbl ! j =
     (if i \<le> j \<and> j < unat MAX_SYSTEM_EXCEPTION_NUM then dflt else tbl ! j)"
proof (induction dflt i tbl rule: Exception_Init_loop.induct)
  case (1 dflt i tbl)
  show ?case
  proof (cases "i < unat MAX_SYSTEM_EXCEPTION_NUM")
    case True
    with 1 show ?thesis
      by (subst Exception_Init_loop.simps) (auto simp: nth_list_update)
  next
    case False
    then show ?thesis by (subst Exception_Init_loop.simps) auto
  qed
qed

text \<open>
  C5. On a table of \<open>MAX_SYSTEM_EXCEPTION_NUM\<close> entries: after \<open>Exception_Init\<close>,
  \<open>Exception_Get_EXC code\<close> returns the default handler for every \<open>code < 12\<close>; after
  \<open>Exception_Register_EXC code h\<close> with \<open>code < 12\<close>, \<open>Exception_Get_EXC code\<close> returns
  \<open>h\<close>; \<open>Exception_Register_EXC\<close> with a code of 12 or more leaves the whole table as
  it was.
\<close>

theorem Exception_table_contract:
  "length tbl = unat MAX_SYSTEM_EXCEPTION_NUM \<Longrightarrow>
     (code < MAX_SYSTEM_EXCEPTION_NUM \<longrightarrow>
        Exception_Get_EXC code (Exception_Init dflt tbl) = Some dflt) \<and>
     (code < MAX_SYSTEM_EXCEPTION_NUM \<longrightarrow>
        Exception_Get_EXC code (Exception_Register_EXC code h tbl) = Some h) \<and>
     (MAX_SYSTEM_EXCEPTION_NUM \<le> bad \<longrightarrow> Exception_Register_EXC bad h tbl = tbl)"
  by (auto simp: Exception_Get_EXC_def Exception_Init_def Exception_Register_EXC_def
      Exception_Init_loop_nth word_less_nat_alt word_le_nat_alt)

theorem Exception_table_contract_witness:
  "length (replicate 12 (0 :: uint32_t)) = unat MAX_SYSTEM_EXCEPTION_NUM \<and>
   (3 :: uint32_t) < MAX_SYSTEM_EXCEPTION_NUM \<and>
   Exception_Get_EXC 3 (Exception_Init 0x80001000 (replicate 12 0)) = Some 0x80001000 \<and>
   Exception_Get_EXC 3 (Exception_Register_EXC 3 0x80002000 (replicate 12 0)) = Some 0x80002000 \<and>
   MAX_SYSTEM_EXCEPTION_NUM \<le> (12 :: uint32_t) \<and>
   Exception_Register_EXC 12 0x80002000 (replicate 12 0) = replicate 12 0"
  using Exception_table_contract [of "replicate 12 0" 3 "0x80001000" "0x80002000" 12]
  by (simp add: MAX_SYSTEM_EXCEPTION_NUM_def)

text \<open>
  C7. \<open>Exception_Get_EXC EXCn\<close> returns a value exactly when \<open>EXCn < 12\<close>, and then it is
  the table entry; for every \<open>EXCn\<close> of 12 or more, control leaves the function without a
  \<open>return\<close> statement, so no value is defined.
\<close>

theorem Exception_Get_EXC_defined_iff:
  "(Exception_Get_EXC EXCn tbl = None) = (MAX_SYSTEM_EXCEPTION_NUM \<le> EXCn) \<and>
   (\<exists>h. Exception_Get_EXC EXCn tbl = Some h) = (EXCn < MAX_SYSTEM_EXCEPTION_NUM) \<and>
   (Exception_Get_EXC EXCn tbl = Some (tbl ! unat EXCn)) = (unat EXCn < 12)"
  by (auto simp: Exception_Get_EXC_def MAX_SYSTEM_EXCEPTION_NUM_def word_less_nat_alt word_le_nat_alt)

section \<open>Dispatch of an exception\<close>

lemma low12: "unat (mcause AND 0xfff) = unat mcause mod 4096" for mcause :: uint32_t
proof -
  have "mcause AND 0xfff = take_bit 12 mcause"
    by (simp add: take_bit_eq_mask mask_eq_exp_minus_1)
  then show ?thesis by (simp add: unsigned_take_bit_eq take_bit_eq_mod unat_mod_distrib)
qed

text \<open>
  C6, as the claim states it, fails where the selected handler is \<open>NULL\<close>: the code guards
  the call with \<open>exc_handler != NULL\<close>. After \<open>Exception_Init\<close> and
  \<open>Exception_Register_EXC 3 NULL\<close>, a trap with \<open>mcause = 3\<close> selects the entry 0 and
  invokes nothing.
\<close>

theorem core_exception_handler_null_counterexample:
  "selected_handler 0x80001000
     (Exception_Register_EXC 3 0 (Exception_Init 0x80001000 (replicate 12 0))) 3 = 0 \<and>
   fst (core_exception_handler 0x80001000 (\<lambda>h. True)
     (Exception_Register_EXC 3 0 (Exception_Init 0x80001000 (replicate 12 0))) 3 0x20000000) = []"
  by (simp add: core_exception_handler_def selected_handler_def Let_def
      Exception_Register_EXC_def Exception_Init_def Exception_Init_loop_nth Exception_Init_loop_length
      MAX_SYSTEM_EXCEPTION_NUM_def)

text \<open>
  C6, amended. For every \<open>mcause\<close> and \<open>sp\<close>, \<open>core_exception_handler\<close> takes the low 12
  bits of \<open>mcause\<close> as the exception code, selects the table entry when the code is within
  0..11 and the default handler otherwise, invokes the selected handler with
  \<open>(mcause, sp)\<close> when it is not \<open>NULL\<close>, and invokes nothing when it is \<open>NULL\<close>.
\<close>

theorem core_exception_handler_dispatch:
  "(unat mcause mod 4096 < 12 \<longrightarrow>
      selected_handler dflt tbl mcause = tbl ! (unat mcause mod 4096)) \<and>
   (12 \<le> unat mcause mod 4096 \<longrightarrow> selected_handler dflt tbl mcause = dflt) \<and>
   (selected_handler dflt tbl mcause \<noteq> 0 \<longrightarrow>
      fst (core_exception_handler dflt returns tbl mcause sp) =
        [(selected_handler dflt tbl mcause, mcause, sp)]) \<and>
   (selected_handler dflt tbl mcause = 0 \<longrightarrow>
      fst (core_exception_handler dflt returns tbl mcause sp) = [])"
  by (simp add: core_exception_handler_def selected_handler_def Let_def
      MAX_SYSTEM_EXCEPTION_NUM_def word_less_nat_alt low12 split: option.splits)

theorem core_exception_handler_dispatch_witness:
  "unat (0x80000003 :: uint32_t) mod 4096 < 12 \<and>
   selected_handler 0x80001000 (replicate 12 0x80002000) 0x80000003 = 0x80002000 \<and>
   12 \<le> unat (0x0000000c :: uint32_t) mod 4096 \<and>
   selected_handler 0x80001000 (replicate 12 0x80002000) 0xc = 0x80001000 \<and>
   fst (core_exception_handler 0x80001000 (\<lambda>h. True) (replicate 12 0x80002000)
          0x80000003 0x20000000) =
     [(0x80002000, 0x80000003, 0x20000000)] \<and>
   fst (core_exception_handler 0x80001000 (\<lambda>h. True) (replicate 12 0x80002000)
          0xc 0x20000000) =
     [(0x80001000, 0xc, 0x20000000)] \<and>
   selected_handler 0x80001000 (replicate 12 0) 3 = 0 \<and>
   fst (core_exception_handler 0x80001000 (\<lambda>h. True) (replicate 12 0) 3 0x20000000) = []"
  using
    core_exception_handler_dispatch [where mcause = "0x80000003" and dflt = "0x80001000"
      and tbl = "replicate 12 0x80002000" and sp = "0x20000000" and returns = "\<lambda>h. True"]
    core_exception_handler_dispatch [where mcause = "0xc" and dflt = "0x80001000"
      and tbl = "replicate 12 0x80002000" and sp = "0x20000000" and returns = "\<lambda>h. True"]
    core_exception_handler_dispatch [where mcause = "3" and dflt = "0x80001000"
      and tbl = "replicate 12 0" and sp = "0x20000000" and returns = "\<lambda>h. True"]
  by (simp add: selected_handler_def MAX_SYSTEM_EXCEPTION_NUM_def)

text \<open>
  The return value: 0 when the selected handler is \<open>NULL\<close> or the invoked handler returns;
  no return at all when the default handler is invoked, or a handler that does not return.
\<close>

lemma core_exception_handler_return:
  "snd (core_exception_handler dflt returns tbl mcause sp) =
     (if selected_handler dflt tbl mcause = 0 then Some 0
      else if selected_handler dflt tbl mcause = dflt then None
      else if returns (selected_handler dflt tbl mcause) then Some 0 else None)"
  by (simp add: core_exception_handler_def invoke_def system_default_exception_handler_def Let_def)

section \<open>The control register\<close>

lemma and_mask_twice: "(v AND k) AND k = v AND k" for v k :: uint32_t
  by (rule bit_eqI) (auto simp: bit_simps)

lemma and_mask_not: "(v AND k) AND NOT k = 0" for v k :: uint32_t
  by (rule bit_eqI) (auto simp: bit_simps)

lemma MTIMECTL_SetControlValue:
  "MTIMECTL (SysTimer_SetControlValue cfg v m) = v AND SysTimer_MTIMECTL_Msk cfg"
  by (simp add: SysTimer_SetControlValue_def SW_eq)

lemma fst_GetControlValue:
  "fst (SysTimer_GetControlValue cfg m) = MTIMECTL m AND SysTimer_MTIMECTL_Msk cfg"
  by (simp add: SysTimer_GetControlValue_def LW_def Let_def elapse_keeps)

text \<open>
  C8. For every 32-bit \<open>v\<close>, \<open>SysTimer_GetControlValue\<close> after
  \<open>SysTimer_SetControlValue v\<close> returns \<open>v & SysTimer_MTIMECTL_Msk\<close>; the register itself
  holds that value, so the bits of \<open>v\<close> outside the mask neither reach the register nor read
  back; the mask is made of the TIMESTOP, CMPCLREN and CLKSRC bits only.
\<close>

theorem control_value_roundtrip:
  "fst (SysTimer_GetControlValue cfg (SysTimer_SetControlValue cfg v m)) =
     v AND SysTimer_MTIMECTL_Msk cfg \<and>
   MTIMECTL (SysTimer_SetControlValue cfg v m) = v AND SysTimer_MTIMECTL_Msk cfg \<and>
   MTIMECTL (SysTimer_SetControlValue cfg v m) AND NOT (SysTimer_MTIMECTL_Msk cfg) = 0 \<and>
   fst (SysTimer_GetControlValue cfg (SysTimer_SetControlValue cfg v m))
     AND NOT (SysTimer_MTIMECTL_Msk cfg) = 0 \<and>
   SysTimer_MTIMECTL_Msk cfg =
     (SysTimer_MTIMECTL_TIMESTOP_Msk cfg OR SysTimer_MTIMECTL_CMPCLREN_Msk cfg
        OR SysTimer_MTIMECTL_CLKSRC_Msk cfg)"
  unfolding fst_GetControlValue MTIMECTL_SetControlValue and_mask_twice and_mask_not
  by (simp add: SysTimer_MTIMECTL_Msk_def)

section \<open>Return codes\<close>

text \<open>
  C10. \<open>IRQC_Register_IRQ\<close> returns 0 for every interrupt number and handler, also for
  numbers at or above \<open>SOC_INT_MAX\<close>, and with a \<open>NULL\<close> handler it still enables the
  interrupt (and installs no vector); \<open>SysTick_Reload\<close> and \<open>SysTick_HartReload\<close> return 0
  on every path; the value -1 is never returned.
\<close>

theorem return_codes_always_zero:
  "fst (IRQC_Register_IRQ cfg IRQn handler m) = 0 \<and>
   fst (IRQC_Register_IRQ cfg IRQn handler m) \<noteq> - 1 \<and>
   calls (snd (IRQC_Register_IRQ cfg IRQn 0 m)) = calls m @ [IRQC_EnableIRQ IRQn] \<and>
   fst (SysTick_Reload cfg ticks m) = 0 \<and>
   fst (SysTick_Reload cfg ticks m) \<noteq> - 1 \<and>
   fst (SysTick_HartReload cfg ticks hartid m) = 0 \<and>
   fst (SysTick_HartReload cfg ticks hartid m) \<noteq> - 1"
  by (simp add: IRQC_Register_IRQ_def SysTick_Reload_def SysTick_HartReload_def Let_def
      split: prod.splits)

section \<open>Access traces of the per-hart accessors\<close>

lemma issued_append: "bus m' = bus m @ xs \<Longrightarrow> issued m m' = xs"
  by (simp add: issued_def)

lemma bus_SW: "bus (SW p v m) = bus m @ [Store p v]"
  by (simp add: SW_eq)

lemma bus_snd_LW: "bus (snd (LW p m)) = bus m @ [Load p (peek p (elapse m))]"
  by (simp add: snd_LW)

lemma issued_SendIPI:
  "issued m (SysTimer_SendIPI cfg hartid m) = [Store (Clint (SysTimer_CLINT_MSIP_BASE cfg hartid)) 1]"
  by (rule issued_append) (simp add: SysTimer_SendIPI_def bus_SW Let_def)

lemma issued_ClearIPI:
  "issued m (SysTimer_ClearIPI cfg hartid m) = [Store (Clint (SysTimer_CLINT_MSIP_BASE cfg hartid)) 0]"
  by (rule issued_append) (simp add: SysTimer_ClearIPI_def bus_SW Let_def)

lemma issued_SetHartSWIRQ:
  "issued m (SysTimer_SetHartSWIRQ cfg hartid m) =
     (if hartid = 0
      then [Load (Field MSIP_reg 0) (MSIP m),
            Store (Field MSIP_reg 0) (MSIP m OR SysTimer_MSIP_MSIP_Msk cfg)]
      else [Store (Clint (SysTimer_CLINT_MSIP_BASE cfg hartid)) (SysTimer_MSIP_MSIP_Msk cfg)])"
  by (rule issued_append)
     (simp add: SysTimer_SetHartSWIRQ_def split_beta bus_SW bus_snd_LW fst_LW elapse_keeps Let_def)

lemma issued_ClearHartSWIRQ:
  "issued m (SysTimer_ClearHartSWIRQ cfg hartid m) =
     (if hartid = 0
      then [Load (Field MSIP_reg 0) (MSIP m),
            Store (Field MSIP_reg 0) (MSIP m AND NOT (SysTimer_MSIP_MSIP_Msk cfg))]
      else [Store (Clint (SysTimer_CLINT_MSIP_BASE cfg hartid)) 0])"
  by (rule issued_append)
     (simp add: SysTimer_ClearHartSWIRQ_def split_beta bus_SW bus_snd_LW fst_LW elapse_keeps Let_def)

lemma issued_GetHartMsipValue:
  "issued m (snd (SysTimer_GetHartMsipValue cfg hartid m)) =
     (if hartid = 0 then [Load (Field MSIP_reg 0) (MSIP m)]
      else [Load (Clint (SysTimer_CLINT_MSIP_BASE cfg hartid))
              (CLINT m (SysTimer_CLINT_MSIP_BASE cfg hartid))])"
  by (rule issued_append)
     (simp add: SysTimer_GetHartMsipValue_def split_beta bus_snd_LW elapse_keeps Let_def)

lemma issued_SetHartMsipValue:
  "issued m (SysTimer_SetHartMsipValue cfg msip hartid m) =
     (if hartid = 0 then [Store (Field MSIP_reg 0) (msip AND SysTimer_MSIP_Msk cfg)]
      else [Store (Clint (SysTimer_CLINT_MSIP_BASE cfg hartid)) msip])"
  by (rule issued_append) (simp add: SysTimer_SetHartMsipValue_def bus_SW Let_def)

lemma issued_SetHartCompareValue:
  "issued m (SysTimer_SetHartCompareValue cfg val hartid m) =
     [Store (compare_ptr cfg hartid) (- 1),
      Store (ptr_add (compare_ptr cfg hartid) 4) (hi32 val),
      Store (compare_ptr cfg hartid) (lo32 val)]"
  by (rule issued_append) (simp add: SysTimer_SetHartCompareValue_def compare_ptr_def bus_SW Let_def)

lemma issued_GetHartCompareValue:
  "issued m (snd (SysTimer_GetHartCompareValue cfg hartid m)) =
     (if hartid = 0 then [Load64 (Field MTIMERCMP_reg 0) (MTIMERCMP m)]
      else [Load (Clint (SysTimer_CLINT_MTIMECMP_BASE cfg hartid + 4))
              (CLINT m (SysTimer_CLINT_MTIMECMP_BASE cfg hartid + 4)),
            Load (Clint (SysTimer_CLINT_MTIMECMP_BASE cfg hartid))
              (CLINT m (SysTimer_CLINT_MTIMECMP_BASE cfg hartid))])"
  by (rule issued_append)
     (simp add: SysTimer_GetHartCompareValue_def split_beta LD_field_def Let_def bus_snd_LW snd_LW
        elapse_keeps halfword_def join64_halves)

text \<open>
  C4. \<open>SysTimer_SendIPI\<close> and \<open>SysTimer_ClearIPI\<close> store through the resolved address
  \<open>base + hartid * stride\<close> for every hart id, hart 0 included. The MSIP accessors and the
  compare accessors called with hart 0 touch only the fixed register (\<open>MSIP\<close>,
  \<open>MTIMERCMP\<close>) and form no per-hart address; called with a hart id other than 0 they go
  through \<open>base + hartid * stride\<close> of their region, the MSIP accessors through the same
  address as \<open>SysTimer_SendIPI\<close> and \<open>SysTimer_ClearIPI\<close> for that hart.
\<close>

theorem hart_addressing:
  "issued m (SysTimer_SendIPI cfg hartid m) =
     [Store (Clint (CLINT_MSIP_base cfg + hartid * CLINT_MSIP_stride cfg)) 1] \<and>
   issued m (SysTimer_ClearIPI cfg hartid m) =
     [Store (Clint (CLINT_MSIP_base cfg + hartid * CLINT_MSIP_stride cfg)) 0] \<and>
   issued m (SysTimer_SetHartSWIRQ cfg 0 m) =
     [Load (Field MSIP_reg 0) (MSIP m),
      Store (Field MSIP_reg 0) (MSIP m OR SysTimer_MSIP_MSIP_Msk cfg)] \<and>
   issued m (SysTimer_ClearHartSWIRQ cfg 0 m) =
     [Load (Field MSIP_reg 0) (MSIP m),
      Store (Field MSIP_reg 0) (MSIP m AND NOT (SysTimer_MSIP_MSIP_Msk cfg))] \<and>
   issued m (snd (SysTimer_GetHartMsipValue cfg 0 m)) = [Load (Field MSIP_reg 0) (MSIP m)] \<and>
   issued m (SysTimer_SetHartMsipValue cfg msip 0 m) =
     [Store (Field MSIP_reg 0) (msip AND SysTimer_MSIP_Msk cfg)] \<and>
   issued m (SysTimer_SetHartCompareValue cfg val 0 m) =
     [Store (Field MTIMERCMP_reg 0) (- 1), Store (Field MTIMERCMP_reg 4) (hi32 val),
      Store (Field MTIMERCMP_reg 0) (lo32 val)] \<and>
   issued m (snd (SysTimer_GetHartCompareValue cfg 0 m)) =
     [Load64 (Field MTIMERCMP_reg 0) (MTIMERCMP m)] \<and>
   (hartid \<noteq> 0 \<longrightarrow>
      map target (issued m (SysTimer_SetHartSWIRQ cfg hartid m)) =
        [Clint (CLINT_MSIP_base cfg + hartid * CLINT_MSIP_stride cfg)] \<and>
      map target (issued m (SysTimer_ClearHartSWIRQ cfg hartid m)) =
        [Clint (CLINT_MSIP_base cfg + hartid * CLINT_MSIP_stride cfg)] \<and>
      map target (issued m (snd (SysTimer_GetHartMsipValue cfg hartid m))) =
        [Clint (CLINT_MSIP_base cfg + hartid * CLINT_MSIP_stride cfg)] \<and>
      map target (issued m (SysTimer_SetHartMsipValue cfg msip hartid m)) =
        [Clint (CLINT_MSIP_base cfg + hartid * CLINT_MSIP_stride cfg)] \<and>
      map target (issued m (SysTimer_SetHartSWIRQ cfg hartid m)) =
        map target (issued m (SysTimer_SendIPI cfg hartid m)) \<and>
      map target (issued m (SysTimer_ClearHartSWIRQ cfg hartid m)) =
        map target (issued m (SysTimer_ClearIPI cfg hartid m)) \<and>
      map target (issued m (SysTimer_SetHartCompareValue cfg val hartid m)) =
        [Clint (CLINT_MTIMECMP_base cfg + hartid * CLINT_MTIMECMP_stride cfg),
         Clint (CLINT_MTIMECMP_base cfg + hartid * CLINT_MTIMECMP_stride cfg + 4),
         Clint (CLINT_MTIMECMP_base cfg + hartid * CLINT_MTIMECMP_stride cfg)] \<and>
      map target (issued m (snd (SysTimer_GetHartCompareValue cfg hartid m))) =
        [Clint (CLINT_MTIMECMP_base cfg + hartid * CLINT_MTIMECMP_stride cfg + 4),
         Clint (CLINT_MTIMECMP_base cfg + hartid * CLINT_MTIMECMP_stride cfg)])"
  unfolding issued_SendIPI issued_ClearIPI issued_SetHartSWIRQ issued_ClearHartSWIRQ
    issued_GetHartMsipValue issued_SetHartMsipValue issued_SetHartCompareValue
    issued_GetHartCompareValue
  by (simp add: target_def compare_ptr_def SysTimer_CLINT_MSIP_BASE_def
      SysTimer_CLINT_MTIMECMP_BASE_def)

theorem hart_addressing_witness:
  "(1 :: uint32_t) \<noteq> 0 \<and>
   issued (machine_at 0 0 []) (SysTimer_SendIPI sample_soc 0 (machine_at 0 0 [])) =
     [Store (Clint 0x18031000) 1] \<and>
   issued (machine_at 0 0 []) (SysTimer_SendIPI sample_soc 1 (machine_at 0 0 [])) =
     [Store (Clint 0x18031004) 1] \<and>
   issued (machine_at 0 0 []) (SysTimer_SetHartSWIRQ sample_soc 0 (machine_at 0 0 [])) =
     [Load (Field MSIP_reg 0) 0, Store (Field MSIP_reg 0) 1] \<and>
   map target (issued (machine_at 0 0 []) (SysTimer_SetHartSWIRQ sample_soc 1 (machine_at 0 0 []))) =
     [Clint 0x18031004] \<and>
   map target (issued (machine_at 0 0 []) (SysTimer_ClearHartSWIRQ sample_soc 1 (machine_at 0 0 []))) =
     [Clint 0x18031004] \<and>
   map target (issued (machine_at 0 0 [])
     (SysTimer_SetHartCompareValue sample_soc 7 1 (machine_at 0 0 []))) =
     [Clint 0x18035008, Clint 0x1803500C, Clint 0x18035008]"
proof -
  have m: "MSIP (machine_at 0 0 []) = 0" by (simp add: machine_at_def)
  show ?thesis
    using hart_addressing [of "machine_at 0 0 []" sample_soc 1 0 7]
      hart_addressing [of "machine_at 0 0 []" sample_soc 0 0 7]
    by (simp add: m sample_soc_def)
qed

section \<open>Writing a compare register\<close>

lemma compare_reg_SW_lo:
  "compare_reg cfg h (SW (compare_ptr cfg h) v m) = join64 (hi32 (compare_reg cfg h m)) v"
  by (simp add: compare_reg_def compare_ptr_def SW_eq elapse_keeps set_halfword_def hi32_join64)

lemma compare_reg_SW_hi:
  "compare_reg cfg h (SW (ptr_add (compare_ptr cfg h) 4) v m) =
     join64 v (lo32 (compare_reg cfg h m))"
  by (simp add: compare_reg_def compare_ptr_def SW_eq elapse_keeps set_halfword_def lo32_join64)

lemma run_states_three_stores:
  "run_states [Store p a, Store q b, Store r c] m =
     [SW p a m, SW q b (SW p a m), SW r c (SW q b (SW p a m))]"
  by (simp add: SW_def)

lemma SetHartCompareValue_eq:
  "SysTimer_SetHartCompareValue cfg val hartid m =
     SW (compare_ptr cfg hartid) (lo32 val)
       (SW (ptr_add (compare_ptr cfg hartid) 4) (hi32 val)
         (SW (compare_ptr cfg hartid) (- 1) m))"
  by (simp add: SysTimer_SetHartCompareValue_def compare_ptr_def Let_def)

lemma le_join64_ones: "v \<le> join64 (hi32 v) (- 1)"
proof -
  have "join64 (hi32 v) (lo32 v) \<le> join64 (hi32 v) (- 1)"
    unfolding join64_le_iff by simp
  then show ?thesis by (simp add: join64_halves)
qed


lemma compare_states:
  "map (compare_reg cfg hartid)
     (run_states (issued m (SysTimer_SetHartCompareValue cfg val hartid m)) m) =
   [join64 (hi32 (compare_reg cfg hartid m)) (- 1), join64 (hi32 val) (- 1), val]"
  unfolding issued_SetHartCompareValue run_states_three_stores
  by (simp add: compare_reg_SW_lo compare_reg_SW_hi hi32_join64 lo32_join64 join64_halves)

section \<open>Reading the counter\<close>

lemma elapse_bus: "elapse (m\<lparr>bus := b\<rparr>) = (elapse m)\<lparr>bus := b\<rparr>"
  by (simp add: elapse_def split: list.splits)

lemma peek_bus: "peek p (m\<lparr>bus := b\<rparr>) = peek p m"
  by (cases "(p, m)" rule: peek.cases) simp_all

lemma counter_at_simps:
  "counter_at 1 m = MTIMER (elapse m)"
  "counter_at (Suc 0) m = MTIMER (elapse m)"
  "counter_at 2 m = MTIMER (elapse (elapse m))"
  "counter_at 3 m = MTIMER (elapse (elapse (elapse m)))"
  "counter_at 4 m = MTIMER (elapse (elapse (elapse (elapse m))))"
  by (simp_all add: counter_at_def eval_nat_numeral funpow_swap1)

lemma peek_MTIMER: 
  "peek (Field MTIMER_reg 0) m = lo32 (MTIMER m)"
  "peek (Field MTIMER_reg 4) m = hi32 (MTIMER m)"
  by (simp_all add: halfword_def)

lemma fst_GetLoadValue:
  "fst (SysTimer_GetLoadValue m) =
     join64 (hi32 (counter_at 3 m))
       (if hi32 (counter_at 1 m) \<noteq> hi32 (counter_at 3 m)
        then lo32 (counter_at 4 m) else lo32 (counter_at 2 m))"
  by (simp add: SysTimer_GetLoadValue_def Let_def split_beta fst_LW snd_LW elapse_bus peek_bus
      counter_at_simps peek_MTIMER del: peek.simps)

lemma bus_GetLoadValue:
  "bus (snd (SysTimer_GetLoadValue m)) =
     bus m @
     [Load (Field MTIMER_reg 4) (hi32 (counter_at 1 m)),
      Load (Field MTIMER_reg 0) (lo32 (counter_at 2 m)),
      Load (Field MTIMER_reg 4) (hi32 (counter_at 3 m))] @
     (if hi32 (counter_at 1 m) \<noteq> hi32 (counter_at 3 m)
      then [Load (Field MTIMER_reg 0) (lo32 (counter_at 4 m))] else [])"
  by (simp add: SysTimer_GetLoadValue_def Let_def split_beta fst_LW snd_LW elapse_bus peek_bus
      counter_at_simps peek_MTIMER elapse_keeps del: peek.simps)

lemma ucast_ones: "(ucast (- 1 :: uint32_t) :: uint64_t) = 0xFFFFFFFF"
  by (simp add: unsigned_minus_1_eq_mask mask_eq_exp_minus_1)


lemma halves_numeral:
  "hi32 (0x100000007 :: uint64_t) = 1" "lo32 (0x100000007 :: uint64_t) = 7"
  "hi32 (0x200000003 :: uint64_t) = 2" "lo32 (0x200000003 :: uint64_t) = 3"
  "hi32 (100 :: uint64_t) = 0" "hi32 (0x100000010 :: uint64_t) = 1"
  "lo32 (0x100000010 :: uint64_t) = 0x10"
  "join64 1 0 = 0x100000000" "join64 2 0 = 0x200000000" "join64 2 7 = 0x200000007"
  "join64 0 (- 1) = 0xFFFFFFFF" "join64 1 (- 1) = 0x1FFFFFFFF"
  by (simp_all add: hi32_def lo32_def join64_def ucast_ones)

text \<open>
  C2. For every hart and every \<open>counter\<close> below both the old compare value and the new
  one: \<open>SysTimer_SetHartCompareValue\<close> stores all-ones to the low half, then the new high
  half, then the new low half, and after each of these stores the 64-bit compare register of
  the hart is above \<open>counter\<close>.
\<close>

theorem compare_never_at_or_below_counter:
  assumes "counter < compare_reg cfg hartid m" and "counter < val"
  shows "issued m (SysTimer_SetHartCompareValue cfg val hartid m) =
           [Store (compare_ptr cfg hartid) (- 1),
            Store (ptr_add (compare_ptr cfg hartid) 4) (hi32 val),
            Store (compare_ptr cfg hartid) (lo32 val)] \<and>
         last (run_states (issued m (SysTimer_SetHartCompareValue cfg val hartid m)) m) =
           SysTimer_SetHartCompareValue cfg val hartid m \<and>
         map (compare_reg cfg hartid)
           (run_states (issued m (SysTimer_SetHartCompareValue cfg val hartid m)) m) =
           [join64 (hi32 (compare_reg cfg hartid m)) (- 1), join64 (hi32 val) (- 1), val] \<and>
         (\<forall>st \<in> set (run_states (issued m (SysTimer_SetHartCompareValue cfg val hartid m)) m).
            counter < compare_reg cfg hartid st)"
proof -
  have a: "counter < join64 (hi32 (compare_reg cfg hartid m)) (- 1)"
    using assms(1) le_join64_ones [of "compare_reg cfg hartid m"] by simp
  have b: "counter < join64 (hi32 val) (- 1)"
    using assms(2) le_join64_ones [of val] by simp
  have "\<forall>c \<in> set (map (compare_reg cfg hartid)
           (run_states (issued m (SysTimer_SetHartCompareValue cfg val hartid m)) m)). counter < c"
    unfolding compare_states using a b assms(2) by simp
  then have c: "\<forall>st \<in> set (run_states (issued m (SysTimer_SetHartCompareValue cfg val hartid m)) m).
            counter < compare_reg cfg hartid st"
    by simp
  have d: "last (run_states (issued m (SysTimer_SetHartCompareValue cfg val hartid m)) m) =
           SysTimer_SetHartCompareValue cfg val hartid m"
    unfolding issued_SetHartCompareValue run_states_three_stores
    by (simp add: SetHartCompareValue_eq)
  show ?thesis
    by (intro conjI) (rule issued_SetHartCompareValue, rule d, rule compare_states, rule c)
qed

theorem compare_never_at_or_below_counter_witness:
  "(50 :: uint64_t) < compare_reg sample_soc 0 (machine_at 0 100 []) \<and>
   (50 :: uint64_t) < 0x100000010 \<and>
   map (compare_reg sample_soc 0)
     (run_states (issued (machine_at 0 100 [])
         (SysTimer_SetHartCompareValue sample_soc 0x100000010 0 (machine_at 0 100 [])))
       (machine_at 0 100 [])) = [0xFFFFFFFF, 0x1FFFFFFFF, 0x100000010] \<and>
   issued (machine_at 0 100 [])
     (SysTimer_SetHartCompareValue sample_soc 0x100000010 0 (machine_at 0 100 [])) =
     [Store (Field MTIMERCMP_reg 0) (- 1), Store (Field MTIMERCMP_reg 4) 1,
      Store (Field MTIMERCMP_reg 0) 0x10]"
proof -
  have c: "compare_reg sample_soc 0 (machine_at 0 100 []) = 100"
    by (simp add: compare_reg_def machine_at_def)
  have h: "(50 :: uint64_t) < compare_reg sample_soc 0 (machine_at 0 100 [])"
    "(50 :: uint64_t) < 0x100000010"
    by (simp_all add: c)
  note t = compare_never_at_or_below_counter [OF h]
  have i: "issued (machine_at 0 100 [])
     (SysTimer_SetHartCompareValue sample_soc 0x100000010 0 (machine_at 0 100 [])) =
     [Store (Field MTIMERCMP_reg 0) (- 1), Store (Field MTIMERCMP_reg 4) 1,
      Store (Field MTIMERCMP_reg 0) 0x10]"
    using t [THEN conjunct1] by (simp add: halves_numeral compare_ptr_def)
  have s: "map (compare_reg sample_soc 0)
     (run_states (issued (machine_at 0 100 [])
         (SysTimer_SetHartCompareValue sample_soc 0x100000010 0 (machine_at 0 100 [])))
       (machine_at 0 100 [])) = [0xFFFFFFFF, 0x1FFFFFFFF, 0x100000010]"
    using t [THEN conjunct2, THEN conjunct2, THEN conjunct1]
    by (simp add: c halves_numeral)
  show ?thesis
    by (intro conjI h s i)
qed

text \<open>
  C1, as the claim states it, fails on a counter that carries into its high word twice
  while the function runs: the sequence \<open>0x0_FFFFFFFF\<close>, \<open>0x1_00000005\<close>, \<open>0x1_FFFFFFFF\<close>,
  \<open>0x2_00000003\<close> is increasing, the two high reads (0 and 1) differ, the low word is read
  again as 3 while the high word is 2 by then, and the function returns \<open>0x1_00000003\<close>.
\<close>

theorem GetLoadValue_second_carry_counterexample:
  "counter_at 1 (machine_at 0xFFFFFFFF 0 [0, 6, 0xFFFFFFFA, 4]) = 0xFFFFFFFF \<and>
   counter_at 2 (machine_at 0xFFFFFFFF 0 [0, 6, 0xFFFFFFFA, 4]) = 0x100000005 \<and>
   counter_at 3 (machine_at 0xFFFFFFFF 0 [0, 6, 0xFFFFFFFA, 4]) = 0x1FFFFFFFF \<and>
   counter_at 4 (machine_at 0xFFFFFFFF 0 [0, 6, 0xFFFFFFFA, 4]) = 0x200000003 \<and>
   fst (SysTimer_GetLoadValue (machine_at 0xFFFFFFFF 0 [0, 6, 0xFFFFFFFA, 4])) = 0x100000003 \<and>
   hi32 (fst (SysTimer_GetLoadValue (machine_at 0xFFFFFFFF 0 [0, 6, 0xFFFFFFFA, 4]))) = 1 \<and>
   hi32 (counter_at 4 (machine_at 0xFFFFFFFF 0 [0, 6, 0xFFFFFFFA, 4])) = 2 \<and>
   issued (machine_at 0xFFFFFFFF 0 [0, 6, 0xFFFFFFFA, 4])
     (snd (SysTimer_GetLoadValue (machine_at 0xFFFFFFFF 0 [0, 6, 0xFFFFFFFA, 4]))) =
     [Load (Field MTIMER_reg 4) 0, Load (Field MTIMER_reg 0) 5,
      Load (Field MTIMER_reg 4) 1, Load (Field MTIMER_reg 0) 3]"
proof -
  let ?m = "machine_at 0xFFFFFFFF 0 [0, 6, 0xFFFFFFFA, 4]"
  have c: "counter_at 1 ?m = 0xFFFFFFFF" "counter_at 2 ?m = 0x100000005"
    "counter_at 3 ?m = 0x1FFFFFFFF" "counter_at 4 ?m = 0x200000003"
    by (simp_all add: counter_at_simps machine_at_def elapse_def)
  have h: "hi32 (0xFFFFFFFF :: uint64_t) = 0" "hi32 (0x1FFFFFFFF :: uint64_t) = 1"
    "hi32 (0x200000003 :: uint64_t) = 2" "lo32 (0x100000005 :: uint64_t) = 5"
    "lo32 (0x200000003 :: uint64_t) = 3" "join64 1 3 = 0x100000003"
    "hi32 (0x100000003 :: uint64_t) = 1"
    by (simp_all add: hi32_def lo32_def join64_def)
  have r: "fst (SysTimer_GetLoadValue ?m) = 0x100000003"
    by (simp add: fst_GetLoadValue c h del: One_nat_def)
  have i: "issued ?m (snd (SysTimer_GetLoadValue ?m)) =
     [Load (Field MTIMER_reg 4) 0, Load (Field MTIMER_reg 0) 5,
      Load (Field MTIMER_reg 4) 1, Load (Field MTIMER_reg 0) 3]"
    by (rule issued_append) (simp add: bus_GetLoadValue c h del: One_nat_def)
  show ?thesis
    unfolding r c h i by (simp del: One_nat_def)
qed

text \<open>
  C1, amended. \<open>SysTimer_GetLoadValue\<close> reads the high word, the low word, the high word
  again, and the low word once more exactly when the two high reads differ. For an
  increasing counter whose two high reads agree it returns the counter value at the low
  read; when the high reads differ and the high word has not changed again by the second
  low read, it returns the counter value at that read. For every increasing sequence the
  result lies between the counter values at the first and at the last read.
\<close>

theorem GetLoadValue_double_read_high:
  "issued m (snd (SysTimer_GetLoadValue m)) =
     [Load (Field MTIMER_reg 4) (hi32 (counter_at 1 m)),
      Load (Field MTIMER_reg 0) (lo32 (counter_at 2 m)),
      Load (Field MTIMER_reg 4) (hi32 (counter_at 3 m))] @
     (if hi32 (counter_at 1 m) \<noteq> hi32 (counter_at 3 m)
      then [Load (Field MTIMER_reg 0) (lo32 (counter_at 4 m))] else []) \<and>
   (counter_at 1 m \<le> counter_at 2 m \<and> counter_at 2 m \<le> counter_at 3 m \<and>
    hi32 (counter_at 1 m) = hi32 (counter_at 3 m) \<longrightarrow>
      fst (SysTimer_GetLoadValue m) = counter_at 2 m) \<and>
   (hi32 (counter_at 1 m) \<noteq> hi32 (counter_at 3 m) \<and>
    hi32 (counter_at 4 m) = hi32 (counter_at 3 m) \<longrightarrow>
      fst (SysTimer_GetLoadValue m) = counter_at 4 m) \<and>
   (counter_at 1 m \<le> counter_at 2 m \<and> counter_at 2 m \<le> counter_at 3 m \<and>
    counter_at 3 m \<le> counter_at 4 m \<longrightarrow>
      counter_at 1 m \<le> fst (SysTimer_GetLoadValue m) \<and>
      fst (SysTimer_GetLoadValue m) \<le> counter_at 4 m)"
proof -
  let ?c1 = "counter_at 1 m" and ?c2 = "counter_at 2 m"
  let ?c3 = "counter_at 3 m" and ?c4 = "counter_at 4 m"
  let ?r = "fst (SysTimer_GetLoadValue m)"
  have A: "issued m (snd (SysTimer_GetLoadValue m)) =
     [Load (Field MTIMER_reg 4) (hi32 ?c1), Load (Field MTIMER_reg 0) (lo32 ?c2),
      Load (Field MTIMER_reg 4) (hi32 ?c3)] @
     (if hi32 ?c1 \<noteq> hi32 ?c3 then [Load (Field MTIMER_reg 0) (lo32 ?c4)] else [])"
    by (rule issued_append) (simp only: bus_GetLoadValue)
  have B: "?r = ?c2" if "?c1 \<le> ?c2" "?c2 \<le> ?c3" "hi32 ?c1 = hi32 ?c3"
  proof -
    have "hi32 ?c1 \<le> hi32 ?c2" using that(1) by (rule hi32_mono)
    moreover have "hi32 ?c2 \<le> hi32 ?c3" using that(2) by (rule hi32_mono)
    ultimately have "hi32 ?c2 = hi32 ?c3" using that(3) by simp
    then have "join64 (hi32 ?c3) (lo32 ?c2) = ?c2"
      using join64_halves [of ?c2] by simp
    with that(3) show ?thesis by (simp add: fst_GetLoadValue)
  qed
  have C: "?r = ?c4" if "hi32 ?c1 \<noteq> hi32 ?c3" "hi32 ?c4 = hi32 ?c3"
    using that join64_halves [of ?c4] by (simp add: fst_GetLoadValue)
  have D: "?c1 \<le> ?r \<and> ?r \<le> ?c4" if mono: "?c1 \<le> ?c2" "?c2 \<le> ?c3" "?c3 \<le> ?c4"
  proof (cases "hi32 ?c1 = hi32 ?c3")
    case True
    with mono B show ?thesis by simp
  next
    case False
    have "?c1 \<le> ?c3" using mono by simp
    then have "hi32 ?c1 \<le> hi32 ?c3" by (rule hi32_mono)
    with False have lt: "hi32 ?c1 < hi32 ?c3" by simp
    have le: "hi32 ?c3 \<le> hi32 ?c4" using mono(3) by (rule hi32_mono)
    have r: "?r = join64 (hi32 ?c3) (lo32 ?c4)"
      using False by (simp add: fst_GetLoadValue)
    have "join64 (hi32 ?c1) (lo32 ?c1) \<le> join64 (hi32 ?c3) (lo32 ?c4)"
      unfolding join64_le_iff using lt by simp
    moreover have "join64 (hi32 ?c3) (lo32 ?c4) \<le> join64 (hi32 ?c4) (lo32 ?c4)"
      unfolding join64_le_iff using le by auto
    ultimately show ?thesis by (simp add: r join64_halves)
  qed
  show ?thesis
    using A B C D by blast
qed

theorem GetLoadValue_double_read_high_witness:
  "counter_at 1 (machine_at 0x100000000 0 [1, 1, 1, 1]) \<le> counter_at 2 (machine_at 0x100000000 0 [1, 1, 1, 1]) \<and>
   counter_at 2 (machine_at 0x100000000 0 [1, 1, 1, 1]) \<le> counter_at 3 (machine_at 0x100000000 0 [1, 1, 1, 1]) \<and>
   hi32 (counter_at 1 (machine_at 0x100000000 0 [1, 1, 1, 1])) =
     hi32 (counter_at 3 (machine_at 0x100000000 0 [1, 1, 1, 1])) \<and>
   fst (SysTimer_GetLoadValue (machine_at 0x100000000 0 [1, 1, 1, 1])) = 0x100000002 \<and>
   counter_at 2 (machine_at 0x100000000 0 [1, 1, 1, 1]) = 0x100000002 \<and>
   hi32 (counter_at 1 (machine_at 0xFFFFFFFE 0 [1, 1, 1, 1])) \<noteq>
     hi32 (counter_at 3 (machine_at 0xFFFFFFFE 0 [1, 1, 1, 1])) \<and>
   hi32 (counter_at 4 (machine_at 0xFFFFFFFE 0 [1, 1, 1, 1])) =
     hi32 (counter_at 3 (machine_at 0xFFFFFFFE 0 [1, 1, 1, 1])) \<and>
   counter_at 4 (machine_at 0xFFFFFFFE 0 [1, 1, 1, 1]) = 0x100000002 \<and>
   fst (SysTimer_GetLoadValue (machine_at 0xFFFFFFFE 0 [1, 1, 1, 1])) = 0x100000002 \<and>
   counter_at 1 (machine_at 0xFFFFFFFE 0 [1, 1, 1, 1]) \<le>
     fst (SysTimer_GetLoadValue (machine_at 0xFFFFFFFE 0 [1, 1, 1, 1]))"
proof -
  let ?a = "machine_at 0x100000000 0 [1, 1, 1, 1]" and ?b = "machine_at 0xFFFFFFFE 0 [1, 1, 1, 1]"
  have ca: "counter_at 1 ?a = 0x100000001" "counter_at 2 ?a = 0x100000002"
    "counter_at 3 ?a = 0x100000003" "counter_at 4 ?a = 0x100000004"
    by (simp_all add: counter_at_simps machine_at_def elapse_def)
  have cb: "counter_at 1 ?b = 0xFFFFFFFF" "counter_at 2 ?b = 0x100000000"
    "counter_at 3 ?b = 0x100000001" "counter_at 4 ?b = 0x100000002"
    by (simp_all add: counter_at_simps machine_at_def elapse_def)
  have h: "hi32 (0x100000001 :: uint64_t) = 1" "hi32 (0x100000003 :: uint64_t) = 1"
    "hi32 (0xFFFFFFFF :: uint64_t) = 0" "hi32 (0x100000002 :: uint64_t) = 1"
    by (simp_all add: hi32_def)
  show ?thesis
    using GetLoadValue_double_read_high [of ?a] GetLoadValue_double_read_high [of ?b]
    unfolding ca cb h by simp
qed

section \<open>Writing the counter\<close>

lemma elapse_quiet: "advance m = [] \<Longrightarrow> elapse m = m"
  by (simp add: elapse_def)

lemma advance_poke: "advance (poke p v m) = advance m"
  by (cases "(p, v, m)" rule: poke.cases) simp_all

lemma mhartid_poke: "mhartid (poke p v m) = mhartid m"
  by (cases "(p, v, m)" rule: poke.cases) simp_all

lemma advance_SW_quiet: "advance m = [] \<Longrightarrow> advance (SW p v m) = []"
  by (simp add: SW_eq elapse_quiet advance_poke)

lemma mhartid_SW: "mhartid (SW p v m) = mhartid m"
  by (simp add: SW_eq mhartid_poke elapse_keeps)

lemma MTIMER_SW_lo_quiet:
  "advance m = [] \<Longrightarrow> MTIMER (SW (Field MTIMER_reg 0) v m) = join64 (hi32 (MTIMER m)) v"
  by (simp add: SW_eq elapse_quiet set_halfword_def)

lemma MTIMER_SW_hi_quiet:
  "advance m = [] \<Longrightarrow> MTIMER (SW (Field MTIMER_reg 4) v m) = join64 v (lo32 (MTIMER m))"
  by (simp add: SW_eq elapse_quiet set_halfword_def)

lemma MTIMER_SW_compare_quiet:
  "advance m = [] \<Longrightarrow> MTIMER (SW (compare_ptr cfg h) v m) = MTIMER m"
  "advance m = [] \<Longrightarrow> MTIMER (SW (ptr_add (compare_ptr cfg h) 4) v m) = MTIMER m"
  by (simp_all add: SW_eq elapse_quiet compare_ptr_def)

lemma compare_reg_SW_MTIMER:
  "compare_reg cfg h (SW (Field MTIMER_reg k) v m) = compare_reg cfg h m"
  by (simp add: compare_reg_def SW_eq elapse_keeps)


lemma SetLoadValue_eq:
  "SysTimer_SetLoadValue val m =
     SW (Field MTIMER_reg 0) (lo32 val)
       (SW (Field MTIMER_reg 4) (hi32 val) (SW (Field MTIMER_reg 0) 0 m))"
  by (simp add: SysTimer_SetLoadValue_def Let_def)










section \<open>Tick configuration\<close>

lemma funpow_elapse_quiet: "advance m = [] \<Longrightarrow> (elapse ^^ k) m = m"
  by (induction k) (simp_all add: elapse_quiet)

lemma counter_at_quiet: "advance m = [] \<Longrightarrow> counter_at k m = MTIMER m"
  by (simp add: counter_at_def funpow_elapse_quiet)

lemma fst_GetLoadValue_quiet: "advance m = [] \<Longrightarrow> fst (SysTimer_GetLoadValue m) = MTIMER m"
  by (simp add: fst_GetLoadValue counter_at_quiet join64_halves del: One_nat_def)

lemma snd_GetLoadValue_quiet:
  "advance m = [] \<Longrightarrow>
   snd (SysTimer_GetLoadValue m) =
     m\<lparr>bus := bus m @
        [Load (Field MTIMER_reg 4) (hi32 (MTIMER m)), Load (Field MTIMER_reg 0) (lo32 (MTIMER m)),
         Load (Field MTIMER_reg 4) (hi32 (MTIMER m))]\<rparr>"
  by (simp add: SysTimer_GetLoadValue_def Let_def split_beta fst_LW snd_LW elapse_bus
      elapse_quiet peek_bus peek_MTIMER del: peek.simps)

lemma compare_reg_SetHartCompareValue:
  "compare_reg cfg h (SysTimer_SetHartCompareValue cfg val h m) = val"
  by (simp add: SetHartCompareValue_eq compare_reg_SW_lo compare_reg_SW_hi hi32_join64
      join64_halves)

lemma MTIMER_SetHartCompareValue_quiet:
  "advance m = [] \<Longrightarrow> MTIMER (SysTimer_SetHartCompareValue cfg val h m) = MTIMER m"
  by (simp add: SetHartCompareValue_eq MTIMER_SW_compare_quiet advance_SW_quiet)

lemma MTIMER_SetLoadValue_quiet:
  "advance m = [] \<Longrightarrow> MTIMER (SysTimer_SetLoadValue val m) = val"
  by (simp add: SetLoadValue_eq MTIMER_SW_lo_quiet MTIMER_SW_hi_quiet advance_SW_quiet
      hi32_join64 lo32_join64 join64_halves)

lemma advance_SetLoadValue_quiet:
  "advance m = [] \<Longrightarrow> advance (SysTimer_SetLoadValue val m) = []"
  by (simp add: SetLoadValue_eq advance_SW_quiet)

lemma mhartid_SetLoadValue: "mhartid (SysTimer_SetLoadValue val m) = mhartid m"
  by (simp add: SetLoadValue_eq mhartid_SW)

lemma compare_reg_SetLoadValue:
  "compare_reg cfg h (SysTimer_SetLoadValue val m) = compare_reg cfg h m"
  by (simp add: SetLoadValue_eq compare_reg_SW_MTIMER)

lemma eclic_setup_keeps:
  "MTIMER (eclic_setup cfg m) = MTIMER m"
  "compare_reg cfg' h (eclic_setup cfg m) = compare_reg cfg' h m"
  by (simp_all add: eclic_setup_def compare_reg_def)

lemma strict_test:
  "(c < t + c) = (t \<noteq> 0 \<and> unat t + unat c < 2 ^ 64)" for c t :: uint64_t
proof (cases "unat t + unat c < 2 ^ 64")
  case True
  then have "unat (t + c) = unat t + unat c"
    by (simp add: unat_word_ariths)
  then show ?thesis using True by (auto simp: word_less_nat_alt unat_gt_0)
next
  case False
  have "unat t < 2 ^ 64" using unsigned_less [of t] by simp
  moreover have "unat c < 2 ^ 64" using unsigned_less [of c] by simp
  ultimately have "(unat t + unat c) mod 2 ^ 64 = unat t + unat c - 2 ^ 64"
    using False by (simp add: mod_if)
  then have "unat (t + c) = unat t + unat c - 2 ^ 64"
    by (simp add: unat_word_ariths)
  then show ?thesis using False \<open>unat t < 2 ^ 64\<close> by (simp add: word_less_nat_alt)
qed

lemma Reload_quiet:
  assumes q: "advance m = []"
  shows "snd (SysTick_HartReload cfg ticks h m) =
     (if MTIMER m < ticks + MTIMER m
      then SysTimer_SetHartCompareValue cfg (ticks + MTIMER m) h (snd (SysTimer_GetLoadValue m))
      else SysTimer_SetHartCompareValue cfg ticks h
             (SysTimer_SetLoadValue 0 (snd (SysTimer_GetLoadValue m))))"
    and "snd (SysTick_Reload cfg ticks m) = snd (SysTick_HartReload cfg ticks (mhartid m) m)"
    and "snd (SysTick_HartConfig cfg ticks h m) =
      eclic_setup cfg
        (SysTimer_SetHartCompareValue cfg (ticks + MTIMER m) h (snd (SysTimer_GetLoadValue m)))"
    and "snd (SysTick_Config cfg ticks m) = snd (SysTick_HartConfig cfg ticks (mhartid m) m)"
  using fst_GetLoadValue_quiet [OF q]
  by (simp_all add: SysTick_HartReload_def SysTick_Reload_def SysTick_HartConfig_def
      SysTick_Config_def SysTimer_SetCompareValue_def SysTimer_GetHartID_def Let_def split_beta
      snd_GetLoadValue_quiet [OF q] mhartid_SetLoadValue)

lemma after_read_quiet:
  assumes q: "advance m = []"
  shows "advance (snd (SysTimer_GetLoadValue m)) = []"
    and "MTIMER (snd (SysTimer_GetLoadValue m)) = MTIMER m"
  using q by (simp_all add: snd_GetLoadValue_quiet)

text \<open>
  C3, as the claim states it, fails in two places. \<open>SysTick_Reload\<close> with \<open>ticks = 0\<close> and
  the counter at 5: the sum does not wrap, but the strict test \<open>reload_ticks > cur_ticks\<close>
  is false, so the counter is reset to 0 and the compare register set to 0. \<open>SysTick_Config\<close>
  with \<open>ticks = 2^64 - 1\<close> and the counter at 2: the sum wraps, and the function, which has
  no overflow test, leaves the counter at 2 and sets the compare register to 1.
\<close>

theorem tick_reload_counterexample:
  "MTIMER (machine_at 5 9 []) = 5 \<and>
   MTIMER (snd (SysTick_Reload sample_soc 0 (machine_at 5 9 []))) = 0 \<and>
   compare_reg sample_soc 0 (snd (SysTick_Reload sample_soc 0 (machine_at 5 9 []))) = 0 \<and>
   MTIMER (machine_at 2 9 []) = 2 \<and>
   MTIMER (snd (SysTick_Config sample_soc 0xFFFFFFFFFFFFFFFF (machine_at 2 9 []))) = 2 \<and>
   compare_reg sample_soc 0 (snd (SysTick_Config sample_soc 0xFFFFFFFFFFFFFFFF (machine_at 2 9 []))) = 1"
proof -
  have q: "advance (machine_at c k []) = []" "mhartid (machine_at c k []) = 0"
    "MTIMER (machine_at c k []) = c" for c k
    by (simp_all add: machine_at_def)
  note r = Reload_quiet [OF q(1)] and a = after_read_quiet [OF q(1)]
  show ?thesis
    unfolding r(2) r(4) r(1) r(3) q
    by (simp add: compare_reg_SetHartCompareValue MTIMER_SetHartCompareValue_quiet a q
        advance_SetLoadValue_quiet MTIMER_SetLoadValue_quiet eclic_setup_keeps)
qed

lemma mhartid_snd_LW: "mhartid (snd (LW p m)) = mhartid m"
  by (simp add: snd_LW elapse_keeps)

lemma mhartid_GetLoadValue: "mhartid (snd (SysTimer_GetLoadValue m)) = mhartid m"
  by (simp add: SysTimer_GetLoadValue_def Let_def split_beta mhartid_snd_LW)

lemma bus_SetHartCompareValue:
  "bus (SysTimer_SetHartCompareValue cfg val h m) =
     bus m @ [Store (compare_ptr cfg h) (- 1), Store (ptr_add (compare_ptr cfg h) 4) (hi32 val),
              Store (compare_ptr cfg h) (lo32 val)]"
  by (simp add: SetHartCompareValue_eq bus_SW)

lemma bus_SetLoadValue:
  "bus (SysTimer_SetLoadValue val m) =
     bus m @ [Store (Field MTIMER_reg 0) 0, Store (Field MTIMER_reg 4) (hi32 val),
              Store (Field MTIMER_reg 0) (lo32 val)]"
  by (simp add: SetLoadValue_eq bus_SW)

lemma snd_HartReload:
  "snd (SysTick_HartReload cfg ticks h m) =
     (if fst (SysTimer_GetLoadValue m) < ticks + fst (SysTimer_GetLoadValue m)
      then SysTimer_SetHartCompareValue cfg (ticks + fst (SysTimer_GetLoadValue m)) h
             (snd (SysTimer_GetLoadValue m))
      else SysTimer_SetHartCompareValue cfg ticks h
             (SysTimer_SetLoadValue 0 (snd (SysTimer_GetLoadValue m))))"
  by (simp add: SysTick_HartReload_def Let_def split_beta)

lemma snd_Reload:
  "snd (SysTick_Reload cfg ticks m) = snd (SysTick_HartReload cfg ticks (mhartid m) m)"
  by (simp add: SysTick_Reload_def SysTick_HartReload_def SysTimer_SetCompareValue_def
      SysTimer_GetHartID_def Let_def split_beta mhartid_GetLoadValue mhartid_SetLoadValue)

lemma snd_HartConfig:
  "snd (SysTick_HartConfig cfg ticks h m) =
     eclic_setup cfg
       (SysTimer_SetHartCompareValue cfg (ticks + fst (SysTimer_GetLoadValue m)) h
          (snd (SysTimer_GetLoadValue m)))"
  by (simp add: SysTick_HartConfig_def split_beta)

lemma snd_Config:
  "snd (SysTick_Config cfg ticks m) = snd (SysTick_HartConfig cfg ticks (mhartid m) m)"
  by (simp add: SysTick_Config_def SysTick_HartConfig_def SysTimer_SetCompareValue_def
      SysTimer_GetHartID_def Let_def split_beta mhartid_GetLoadValue)

lemma counter_stores_issued:
  "bus m' = bus m @ xs \<Longrightarrow> counter_stores (issued m m') = filter is_counter_store xs"
  by (simp add: counter_stores_def issued_def)

lemma not_counter_store_compare:
  "\<not> is_counter_store (Store (compare_ptr cfg h) v)"
  "\<not> is_counter_store (Store (ptr_add (compare_ptr cfg h) 4) v)"
  by (simp_all add: compare_ptr_def)

lemma bus_HartReload:
  "bus (snd (SysTick_HartReload cfg ticks h m)) =
     bus m @
     (issued m (snd (SysTimer_GetLoadValue m)) @
      (if fst (SysTimer_GetLoadValue m) < ticks + fst (SysTimer_GetLoadValue m) then []
       else [Store (Field MTIMER_reg 0) 0, Store (Field MTIMER_reg 4) 0,
             Store (Field MTIMER_reg 0) 0]) @
      [Store (compare_ptr cfg h) (- 1),
       Store (ptr_add (compare_ptr cfg h) 4)
         (hi32 (if fst (SysTimer_GetLoadValue m) < ticks + fst (SysTimer_GetLoadValue m)
                then ticks + fst (SysTimer_GetLoadValue m) else ticks)),
       Store (compare_ptr cfg h)
         (lo32 (if fst (SysTimer_GetLoadValue m) < ticks + fst (SysTimer_GetLoadValue m)
                then ticks + fst (SysTimer_GetLoadValue m) else ticks))])"
proof -
  have i: "bus (snd (SysTimer_GetLoadValue m)) = bus m @ issued m (snd (SysTimer_GetLoadValue m))"
    by (simp add: issued_def bus_GetLoadValue del: One_nat_def)
  show ?thesis
    unfolding snd_HartReload
    by (simp add: bus_SetHartCompareValue bus_SetLoadValue i hi32_def lo32_def)
qed

lemma bus_HartConfig:
  "bus (snd (SysTick_HartConfig cfg ticks h m)) =
     bus m @
     (issued m (snd (SysTimer_GetLoadValue m)) @
      [Store (compare_ptr cfg h) (- 1),
       Store (ptr_add (compare_ptr cfg h) 4) (hi32 (ticks + fst (SysTimer_GetLoadValue m))),
       Store (compare_ptr cfg h) (lo32 (ticks + fst (SysTimer_GetLoadValue m)))])"
proof -
  have i: "bus (snd (SysTimer_GetLoadValue m)) = bus m @ issued m (snd (SysTimer_GetLoadValue m))"
    by (simp add: issued_def bus_GetLoadValue del: One_nat_def)
  show ?thesis
    unfolding snd_HartConfig by (simp add: eclic_setup_def bus_SetHartCompareValue i)
qed

lemma no_counter_store_in_read:
  "filter is_counter_store (issued m (snd (SysTimer_GetLoadValue m))) = []"
  by (simp add: issued_def bus_GetLoadValue del: One_nat_def)

lemma counter_stores_HartReload:
  "counter_stores (issued m (snd (SysTick_HartReload cfg ticks h m))) =
     (if fst (SysTimer_GetLoadValue m) < ticks + fst (SysTimer_GetLoadValue m) then []
      else [Store (Field MTIMER_reg 0) 0, Store (Field MTIMER_reg 4) 0,
            Store (Field MTIMER_reg 0) 0])"
  unfolding counter_stores_issued [OF bus_HartReload]
  by (simp add: no_counter_store_in_read not_counter_store_compare)

lemma counter_stores_HartConfig:
  "counter_stores (issued m (snd (SysTick_HartConfig cfg ticks h m))) = []"
  unfolding counter_stores_issued [OF bus_HartConfig]
  by (simp add: no_counter_store_in_read not_counter_store_compare)

lemma compare_reg_HartReload:
  "compare_reg cfg h (snd (SysTick_HartReload cfg ticks h m)) =
     (if fst (SysTimer_GetLoadValue m) < ticks + fst (SysTimer_GetLoadValue m)
      then ticks + fst (SysTimer_GetLoadValue m) else ticks)"
  by (simp add: snd_HartReload compare_reg_SetHartCompareValue)

lemma compare_reg_HartConfig:
  "compare_reg cfg h (snd (SysTick_HartConfig cfg ticks h m)) =
     ticks + fst (SysTimer_GetLoadValue m)"
  by (simp add: snd_HartConfig eclic_setup_keeps compare_reg_SetHartCompareValue)

text \<open>
  C3, amended. With \<open>counter\<close> the value \<open>SysTimer_GetLoadValue\<close> reads: the test
  \<open>reload_ticks > cur_ticks\<close> holds exactly when \<open>ticks\<close> is not 0 and \<open>ticks + counter\<close> does
  not wrap; then \<open>SysTick_Reload\<close> and \<open>SysTick_HartReload\<close> set the compare register to
  exactly \<open>ticks + counter\<close> and make no store to the counter; otherwise (the sum wraps, or
  \<open>ticks\<close> is 0) they store 0 to the counter and set the compare register to exactly
  \<open>ticks\<close>. \<open>SysTick_Config\<close> and \<open>SysTick_HartConfig\<close> set the compare register to exactly
  \<open>ticks + counter\<close> and make no store to the counter whenever the sum does not wrap. With
  the counter standing still, the counter after \<open>SysTick_Reload\<close> and \<open>SysTick_HartReload\<close>
  is the one before in the first case and 0 in the second.
\<close>

theorem tick_reload_contract:
  "(fst (SysTimer_GetLoadValue m) < ticks + fst (SysTimer_GetLoadValue m)) =
     (ticks \<noteq> 0 \<and> unat ticks + unat (fst (SysTimer_GetLoadValue m)) < 2 ^ 64) \<and>
   (ticks \<noteq> 0 \<and> unat ticks + unat (fst (SysTimer_GetLoadValue m)) < 2 ^ 64 \<longrightarrow>
      unat (compare_reg cfg (mhartid m) (snd (SysTick_Reload cfg ticks m))) =
        unat ticks + unat (fst (SysTimer_GetLoadValue m)) \<and>
      counter_stores (issued m (snd (SysTick_Reload cfg ticks m))) = [] \<and>
      unat (compare_reg cfg hartid (snd (SysTick_HartReload cfg ticks hartid m))) =
        unat ticks + unat (fst (SysTimer_GetLoadValue m)) \<and>
      counter_stores (issued m (snd (SysTick_HartReload cfg ticks hartid m))) = []) \<and>
   (ticks = 0 \<or> 2 ^ 64 \<le> unat ticks + unat (fst (SysTimer_GetLoadValue m)) \<longrightarrow>
      compare_reg cfg (mhartid m) (snd (SysTick_Reload cfg ticks m)) = ticks \<and>
      counter_stores (issued m (snd (SysTick_Reload cfg ticks m))) =
        [Store (Field MTIMER_reg 0) 0, Store (Field MTIMER_reg 4) 0,
         Store (Field MTIMER_reg 0) 0] \<and>
      compare_reg cfg hartid (snd (SysTick_HartReload cfg ticks hartid m)) = ticks \<and>
      counter_stores (issued m (snd (SysTick_HartReload cfg ticks hartid m))) =
        [Store (Field MTIMER_reg 0) 0, Store (Field MTIMER_reg 4) 0,
         Store (Field MTIMER_reg 0) 0]) \<and>
   (unat ticks + unat (fst (SysTimer_GetLoadValue m)) < 2 ^ 64 \<longrightarrow>
      unat (compare_reg cfg (mhartid m) (snd (SysTick_Config cfg ticks m))) =
        unat ticks + unat (fst (SysTimer_GetLoadValue m)) \<and>
      counter_stores (issued m (snd (SysTick_Config cfg ticks m))) = [] \<and>
      unat (compare_reg cfg hartid (snd (SysTick_HartConfig cfg ticks hartid m))) =
        unat ticks + unat (fst (SysTimer_GetLoadValue m)) \<and>
      counter_stores (issued m (snd (SysTick_HartConfig cfg ticks hartid m))) = []) \<and>
   (advance m = [] \<longrightarrow>
      fst (SysTimer_GetLoadValue m) = MTIMER m \<and>
      MTIMER (snd (SysTick_Reload cfg ticks m)) =
        (if MTIMER m < ticks + MTIMER m then MTIMER m else 0) \<and>
      MTIMER (snd (SysTick_HartReload cfg ticks hartid m)) =
        (if MTIMER m < ticks + MTIMER m then MTIMER m else 0))"
proof -
  let ?c = "fst (SysTimer_GetLoadValue m)"
  have sum: "unat (ticks + ?c) = unat ticks + unat ?c" if "unat ticks + unat ?c < 2 ^ 64"
    using that by (simp add: unat_word_ariths)
  have t: "(?c < ticks + ?c) = (ticks \<noteq> 0 \<and> unat ticks + unat ?c < 2 ^ 64)"
    by (rule strict_test)
  have n: "(\<not> ?c < ticks + ?c) = (ticks = 0 \<or> 2 ^ 64 \<le> unat ticks + unat ?c)"
    unfolding t by auto
  have A: "unat (compare_reg cfg h (snd (SysTick_HartReload cfg ticks h m))) =
             unat ticks + unat ?c \<and>
           counter_stores (issued m (snd (SysTick_HartReload cfg ticks h m))) = []"
    if "ticks \<noteq> 0 \<and> unat ticks + unat ?c < 2 ^ 64" for h
    using that t sum by (simp add: compare_reg_HartReload counter_stores_HartReload)
  have B: "compare_reg cfg h (snd (SysTick_HartReload cfg ticks h m)) = ticks \<and>
           counter_stores (issued m (snd (SysTick_HartReload cfg ticks h m))) =
             [Store (Field MTIMER_reg 0) 0, Store (Field MTIMER_reg 4) 0,
              Store (Field MTIMER_reg 0) 0]"
    if "ticks = 0 \<or> 2 ^ 64 \<le> unat ticks + unat ?c" for h
    using that n by (simp add: compare_reg_HartReload counter_stores_HartReload)
  have C: "unat (compare_reg cfg h (snd (SysTick_HartConfig cfg ticks h m))) =
             unat ticks + unat ?c \<and>
           counter_stores (issued m (snd (SysTick_HartConfig cfg ticks h m))) = []"
    if "unat ticks + unat ?c < 2 ^ 64" for h
    using that sum by (simp add: compare_reg_HartConfig counter_stores_HartConfig)
  have D: "?c = MTIMER m \<and>
      MTIMER (snd (SysTick_HartReload cfg ticks h m)) =
        (if MTIMER m < ticks + MTIMER m then MTIMER m else 0)"
    if q: "advance m = []" for h
    by (simp add: Reload_quiet(1) [OF q] fst_GetLoadValue_quiet [OF q]
        MTIMER_SetHartCompareValue_quiet after_read_quiet [OF q]
        advance_SetLoadValue_quiet MTIMER_SetLoadValue_quiet)
  show ?thesis
    unfolding snd_Reload snd_Config
    using t A B C D by blast
qed

theorem tick_reload_contract_witness:
  "fst (SysTimer_GetLoadValue (machine_at 5 9 [1, 1, 1, 1])) = 7 \<and>
   (10 :: uint64_t) \<noteq> 0 \<and>
   unat (10 :: uint64_t) + unat (fst (SysTimer_GetLoadValue (machine_at 5 9 [1, 1, 1, 1]))) < 2 ^ 64 \<and>
   unat (compare_reg sample_soc 0 (snd (SysTick_Reload sample_soc 10 (machine_at 5 9 [1, 1, 1, 1])))) = 17 \<and>
   counter_stores (issued (machine_at 5 9 [1, 1, 1, 1])
     (snd (SysTick_Reload sample_soc 10 (machine_at 5 9 [1, 1, 1, 1])))) = [] \<and>
   unat (compare_reg sample_soc 1
     (snd (SysTick_HartReload sample_soc 10 1 (machine_at 5 9 [1, 1, 1, 1])))) = 17 \<and>
   unat (compare_reg sample_soc 0 (snd (SysTick_Config sample_soc 10 (machine_at 5 9 [1, 1, 1, 1])))) = 17 \<and>
   counter_stores (issued (machine_at 5 9 [1, 1, 1, 1])
     (snd (SysTick_Config sample_soc 10 (machine_at 5 9 [1, 1, 1, 1])))) = [] \<and>
   2 ^ 64 \<le> unat (0xFFFFFFFFFFFFFFFF :: uint64_t) +
     unat (fst (SysTimer_GetLoadValue (machine_at 5 9 [1, 1, 1, 1]))) \<and>
   compare_reg sample_soc 0
     (snd (SysTick_Reload sample_soc 0xFFFFFFFFFFFFFFFF (machine_at 5 9 [1, 1, 1, 1]))) =
     0xFFFFFFFFFFFFFFFF \<and>
   counter_stores (issued (machine_at 5 9 [1, 1, 1, 1])
     (snd (SysTick_Reload sample_soc 0xFFFFFFFFFFFFFFFF (machine_at 5 9 [1, 1, 1, 1])))) =
     [Store (Field MTIMER_reg 0) 0, Store (Field MTIMER_reg 4) 0, Store (Field MTIMER_reg 0) 0] \<and>
   advance (machine_at 5 9 []) = [] \<and>
   MTIMER (snd (SysTick_Reload sample_soc 10 (machine_at 5 9 []))) = 5 \<and>
   MTIMER (snd (SysTick_Reload sample_soc 0xFFFFFFFFFFFFFFFF (machine_at 5 9 []))) = 0"
proof -
  let ?r = "machine_at 5 9 [1, 1, 1, 1]" and ?q = "machine_at 5 9 []"
  have c: "fst (SysTimer_GetLoadValue ?r) = 7"
    by (simp add: fst_GetLoadValue counter_at_simps machine_at_def elapse_def hi32_def lo32_def
        join64_def del: One_nat_def)
  have h: "mhartid ?r = 0" "mhartid ?q = 0" "advance ?q = []" "MTIMER ?q = 5"
    by (simp_all add: machine_at_def)
  note t1 = tick_reload_contract [of ?r 10 sample_soc 1]
    and t2 = tick_reload_contract [of ?r "0xFFFFFFFFFFFFFFFF" sample_soc 1]
    and t3 = tick_reload_contract [of ?q 10 sample_soc 1]
    and t4 = tick_reload_contract [of ?q "0xFFFFFFFFFFFFFFFF" sample_soc 1]
  show ?thesis
    using t1 t2 t3 t4 unfolding c h by simp
qed

end
